theory Spec2Isabelle
  imports Complex_Main
begin

section \<open>Numbers, errors and arrays\<close>

text \<open>
  The program computes with NumPy \<open>float64\<close> arrays and Python floats. The model
  idealises the finite floats as the real numbers (no rounding, no overflow) and keeps the
  three special values that the arithmetic of the program can produce from finite inputs:
  a division by zero does not raise in NumPy, it yields \<open>nan\<close> (\<open>0/0\<close>) or an
  infinity. Input columns and input sequences hold finite numbers, so they are
  \<open>real list\<close>; everything computed after a NumPy division is a \<open>float64 list\<close>.
  Exceptions are values of type \<open>error\<close>.
\<close>

datatype error = ValueError | ZeroDivisionError | IndexError

datatype float64 = Fin real | PInf | NInf | NaN

fun f_neg :: "float64 \<Rightarrow> float64" where
  "f_neg (Fin a) = Fin (- a)"
| "f_neg PInf = NInf"
| "f_neg NInf = PInf"
| "f_neg NaN = NaN"

fun f_add :: "float64 \<Rightarrow> float64 \<Rightarrow> float64" where
  "f_add (Fin a) (Fin b) = Fin (a + b)"
| "f_add NaN _ = NaN"
| "f_add _ NaN = NaN"
| "f_add PInf NInf = NaN"
| "f_add NInf PInf = NaN"
| "f_add PInf _ = PInf"
| "f_add _ PInf = PInf"
| "f_add NInf _ = NInf"
| "f_add _ NInf = NInf"

definition f_sub :: "float64 \<Rightarrow> float64 \<Rightarrow> float64" where
  "f_sub a b = f_add a (f_neg b)"

fun f_mul :: "float64 \<Rightarrow> float64 \<Rightarrow> float64" where
  "f_mul (Fin a) (Fin b) = Fin (a * b)"
| "f_mul NaN _ = NaN"
| "f_mul _ NaN = NaN"
| "f_mul (Fin a) PInf = (if a = 0 then NaN else if 0 < a then PInf else NInf)"
| "f_mul (Fin a) NInf = (if a = 0 then NaN else if 0 < a then NInf else PInf)"
| "f_mul PInf (Fin b) = (if b = 0 then NaN else if 0 < b then PInf else NInf)"
| "f_mul NInf (Fin b) = (if b = 0 then NaN else if 0 < b then NInf else PInf)"
| "f_mul PInf PInf = PInf"
| "f_mul PInf NInf = NInf"
| "f_mul NInf PInf = NInf"
| "f_mul NInf NInf = PInf"

text \<open>
  NumPy division. A zero divisor is taken as \<open>+0.0\<close>: the only divisors of the program
  that can vanish are differences \<open>max - min\<close>, which are \<open>+0.0\<close> when they vanish.
\<close>

fun f_div :: "float64 \<Rightarrow> float64 \<Rightarrow> float64" where
  "f_div (Fin a) (Fin b) =
     (if b = 0 then (if a = 0 then NaN else if 0 < a then PInf else NInf) else Fin (a / b))"
| "f_div NaN _ = NaN"
| "f_div _ NaN = NaN"
| "f_div (Fin a) PInf = Fin 0"
| "f_div (Fin a) NInf = Fin 0"
| "f_div PInf (Fin b) = (if 0 \<le> b then PInf else NInf)"
| "f_div NInf (Fin b) = (if 0 \<le> b then NInf else PInf)"
| "f_div PInf PInf = NaN"
| "f_div PInf NInf = NaN"
| "f_div NInf PInf = NaN"
| "f_div NInf NInf = NaN"

text \<open>Comparisons: every comparison with \<open>nan\<close> is false.\<close>

fun f_lt :: "float64 \<Rightarrow> float64 \<Rightarrow> bool" where
  "f_lt (Fin a) (Fin b) = (a < b)"
| "f_lt NaN _ = False"
| "f_lt _ NaN = False"
| "f_lt _ NInf = False"
| "f_lt PInf _ = False"
| "f_lt NInf _ = True"
| "f_lt (Fin a) PInf = True"

fun f_ge :: "float64 \<Rightarrow> float64 \<Rightarrow> bool" where
  "f_ge (Fin a) (Fin b) = (b \<le> a)"
| "f_ge NaN _ = False"
| "f_ge _ NaN = False"
| "f_ge _ NInf = True"
| "f_ge PInf _ = True"
| "f_ge NInf _ = False"
| "f_ge (Fin a) PInf = False"

text \<open>
  \<open>ndarray.min()\<close> and \<open>ndarray.max()\<close> (also \<open>np.min\<close>, \<open>np.max\<close>) of a
  one-dimensional array of finite numbers: a reduction of an empty array raises
  \<open>ValueError\<close>.
\<close>

fun np_min :: "real list \<Rightarrow> error + real" where
  "np_min [] = Inl ValueError"
| "np_min (x # xs) = Inr (fold min xs x)"

fun np_max :: "real list \<Rightarrow> error + real" where
  "np_max [] = Inl ValueError"
| "np_max (x # xs) = Inr (fold max xs x)"

text \<open>Elementwise arithmetic of arrays of finite numbers.\<close>

definition arr_add :: "real list \<Rightarrow> real list \<Rightarrow> real list" where
  "arr_add xs ys = map2 (+) xs ys"

definition arr_sub :: "real list \<Rightarrow> real list \<Rightarrow> real list" where
  "arr_sub xs ys = map2 (-) xs ys"

definition arr_sq :: "real list \<Rightarrow> real list" where
  "arr_sq xs = map (\<lambda>x. x\<^sup>2) xs"

definition arr_scale :: "real \<Rightarrow> real list \<Rightarrow> real list" where
  "arr_scale c xs = map (\<lambda>x. c * x) xs"

definition arr_sub_scalar :: "real list \<Rightarrow> real \<Rightarrow> real list" where
  "arr_sub_scalar xs c = map (\<lambda>x. x - c) xs"

definition arr_div_const :: "real list \<Rightarrow> real \<Rightarrow> real list" where
  \<comment> \<open>division by a nonzero literal\<close>
  "arr_div_const xs c = map (\<lambda>x. x / c) xs"

definition arr_sqrt :: "real list \<Rightarrow> real list" where
  "arr_sqrt xs = map sqrt xs"

section \<open>Seismic records and stress intensity\<close>

text \<open>A row of the seismic \<open>DataFrame\<close>; the data set is the list of its rows.\<close>

record seismic_record =
  magnitude :: real
  depth :: real
  distance_from_plate_boundary :: real
  stress_tensor_xx :: real
  stress_tensor_yy :: real
  stress_tensor_xy :: real

text \<open>
  \<open>SeismicAnalyzer.calculate_stress_intensity\<close>:
  \<^verbatim>\<open>np.sqrt(0.5 * ((stress_xx - stress_yy)**2 + 4 * stress_xy**2) + (stress_xx + stress_yy)**2 / 4)\<close>
  on the three columns.
\<close>

definition calculate_stress_intensity :: "seismic_record list \<Rightarrow> real list" where
  "calculate_stress_intensity data =
     (let stress_xx = map stress_tensor_xx data;
          stress_yy = map stress_tensor_yy data;
          stress_xy = map stress_tensor_xy data
      in arr_sqrt
           (arr_add
              (arr_scale 0.5
                 (arr_add (arr_sq (arr_sub stress_xx stress_yy))
                          (arr_scale 4 (arr_sq stress_xy))))
              (arr_div_const (arr_sq (arr_add stress_xx stress_yy)) 4)))"

text \<open>The same data set with the two normal components of every record exchanged.\<close>

definition swap_normal :: "seismic_record \<Rightarrow> seismic_record" where
  "swap_normal r = r\<lparr>stress_tensor_xx := stress_tensor_yy r, stress_tensor_yy := stress_tensor_xx r\<rparr>"


section \<open>Risk assessment\<close>

text \<open>
  Arrays after a NumPy division: \<open>xs / d\<close> for an array of finite numbers and a scalar,
  and the elementwise operations on the results.
\<close>

definition arr_div_scalar :: "real list \<Rightarrow> real \<Rightarrow> float64 list" where
  "arr_div_scalar xs d = map (\<lambda>x. f_div (Fin x) (Fin d)) xs"

definition arr_fscale :: "float64 \<Rightarrow> float64 list \<Rightarrow> float64 list" where
  "arr_fscale c xs = map (f_mul c) xs"

definition arr_frsub :: "float64 \<Rightarrow> float64 list \<Rightarrow> float64 list" where
  "arr_frsub c xs = map (f_sub c) xs"

definition arr_fadd :: "float64 list \<Rightarrow> float64 list \<Rightarrow> float64 list" where
  "arr_fadd xs ys = map2 f_add xs ys"

text \<open>
  The expression \<^verbatim>\<open>(v - v.min()) / (v.max() - v.min())\<close>, which the program writes
  out for the magnitude column, the depth column and the seismic activity. Nothing guards
  the division.
\<close>

definition minmax_normalize :: "real list \<Rightarrow> error + float64 list" where
  "minmax_normalize v =
     (case np_min v of Inl e \<Rightarrow> Inl e | Inr lo \<Rightarrow>
      (case np_max v of Inl e \<Rightarrow> Inl e | Inr hi \<Rightarrow>
         Inr (arr_div_scalar (arr_sub_scalar v lo) (hi - lo))))"

text \<open>\<open>ndarray.mean()\<close> and \<open>ndarray.std()\<close>; they are only reached on a non-empty array.\<close>

definition np_mean :: "real list \<Rightarrow> real" where
  "np_mean xs = sum_list xs / real (length xs)"

definition np_std :: "real list \<Rightarrow> real" where
  "np_std xs = sqrt (np_mean (map (\<lambda>x. (x - np_mean xs)\<^sup>2) xs))"

text \<open>The \<open>if\<close>/\<open>elif\<close> chain of the categorisation loop, and the loop itself.\<close>

definition risk_label :: "float64 \<Rightarrow> string" where
  "risk_label score =
     (if f_ge score (Fin 0.8) then ''Very High''
      else if f_ge score (Fin 0.6) then ''High''
      else if f_ge score (Fin 0.4) then ''Moderate''
      else if f_ge score (Fin 0.2) then ''Low''
      else ''Very Low'')"

fun categorize :: "float64 list \<Rightarrow> string list \<Rightarrow> string list" where
  "categorize [] risk_levels = risk_levels"
| "categorize (score # rest) risk_levels = categorize rest (risk_levels @ [risk_label score])"

text \<open>The dictionary returned by \<open>assess_seismic_risk\<close>, one field per key.\<close>

record risk_assessment =
  risk_scores :: "float64 list"
  risk_levels :: "string list"
  max_stress :: real
  avg_stress :: real
  stress_std :: real

definition assess_seismic_risk :: "seismic_record list \<Rightarrow> error + risk_assessment" where
  "assess_seismic_risk data =
     (let stress_intensity = calculate_stress_intensity data;
          magnitude_v = map magnitude data;
          depth_v = map depth data
      in case minmax_normalize magnitude_v of Inl e \<Rightarrow> Inl e | Inr normalized_mag \<Rightarrow>
        (case minmax_normalize depth_v of Inl e \<Rightarrow> Inl e | Inr normalized_depth \<Rightarrow>
        (case np_min stress_intensity of Inl e \<Rightarrow> Inl e | Inr si_min \<Rightarrow>
        (case np_max stress_intensity of Inl e \<Rightarrow> Inl e | Inr si_max \<Rightarrow>
           (let risk_score =
                  arr_fadd
                    (arr_fadd
                       (arr_div_scalar (arr_scale 0.4 (arr_sub_scalar stress_intensity si_min))
                          (si_max - si_min))
                       (arr_fscale (Fin 0.3) normalized_mag))
                    (arr_fscale (Fin 0.3) (arr_frsub (Fin 1) normalized_depth))
            in Inr \<lparr>risk_scores = risk_score,
                    risk_levels = categorize risk_score [],
                    max_stress = si_max,
                    avg_stress = np_mean stress_intensity,
                    stress_std = np_std stress_intensity\<rparr>)))))"

text \<open>
  \<open>assess_canyon_risk\<close>. The threshold is an optional argument with default \<open>0.6\<close>.
  The predictions are \<open>(risk_scores >= threshold).astype(int)\<close>; the counts are a
  dictionary display with the five keys in this order.
\<close>

definition count_level :: "string list \<Rightarrow> string \<Rightarrow> int" where
  "count_level levels l = sum_list (map (\<lambda>x. 1) (filter (\<lambda>x. x = l) levels))"

definition assess_canyon_risk ::
  "seismic_record list \<Rightarrow> real option \<Rightarrow> error + (int list \<times> (string \<times> int) list)" where
  "assess_canyon_risk seismic_data threshold_arg =
     (let threshold = (case threshold_arg of None \<Rightarrow> 0.6 | Some t \<Rightarrow> t)
      in case assess_seismic_risk seismic_data of Inl e \<Rightarrow> Inl e | Inr risk_assessment \<Rightarrow>
        (let predictions =
               map (\<lambda>s. if f_ge s (Fin threshold) then 1 else 0) (risk_scores risk_assessment);
             risk_counts =
               [(''Very High'', count_level (risk_levels risk_assessment) ''Very High''),
                (''High'', count_level (risk_levels risk_assessment) ''High''),
                (''Moderate'', count_level (risk_levels risk_assessment) ''Moderate''),
                (''Low'', count_level (risk_levels risk_assessment) ''Low''),
                (''Very Low'', count_level (risk_levels risk_assessment) ''Very Low'')]
         in Inr (predictions, risk_counts)))"

section \<open>Tectonic model\<close>

text \<open>The dictionary returned by \<open>calculate_stress_distribution\<close>.\<close>

record stress_field =
  maximum_stress :: real
  strain_rate :: real
  normal_stress_x :: real
  normal_stress_y :: real
  shear_stress :: real

text \<open>
  \<open>calculate_stress_distribution\<close> on Python floats, where a division by zero raises
  \<open>ZeroDivisionError\<close>. Poisson's ratio is an optional argument with default \<open>0.25\<close>.
\<close>

definition calculate_stress_distribution ::
  "real \<Rightarrow> real \<Rightarrow> real \<Rightarrow> real option \<Rightarrow> error + stress_field" where
  "calculate_stress_distribution plate_velocity crustal_thickness elastic_thickness poissons_arg =
     (let poissons_ratio = (case poissons_arg of None \<Rightarrow> 0.25 | Some p \<Rightarrow> p);
          velocity_m_s = plate_velocity * (1 / 100) / 365.25 / 24 / 3600
      in if elastic_thickness * 1000 = 0 then Inl ZeroDivisionError
         else
           (let stress = (velocity_m_s * crustal_thickness * 1000) / (elastic_thickness * 1000);
                rate = velocity_m_s / (elastic_thickness * 1000);
                sigma_x = stress * (1 - poissons_ratio);
                sigma_y = stress * (1 - poissons_ratio);
                tau_xy = stress * poissons_ratio
            in Inr \<lparr>maximum_stress = stress,
                    strain_rate = rate,
                    normal_stress_x = sigma_x,
                    normal_stress_y = sigma_y,
                    shear_stress = tau_xy\<rparr>))"

section \<open>Canyon formation simulation\<close>

text \<open>
  NumPy's global random generator is library code. The model takes it as a parameter: a
  state type \<open>'g\<close>, what \<open>np.random.seed\<close> sets the state to, and one draw of
  \<open>np.random.normal(loc, scale)\<close>, which returns the sample and the next state.
  \<open>np.random.normal(loc, scale, size)\<close> draws \<open>size\<close> samples in a row; a negative
  size raises \<open>ValueError\<close>.
\<close>

record 'g rng =
  rng_seed :: "nat \<Rightarrow> 'g"
  rng_normal :: "real \<Rightarrow> real \<Rightarrow> 'g \<Rightarrow> real \<times> 'g"

fun normal_draws :: "'g rng \<Rightarrow> real \<Rightarrow> real \<Rightarrow> nat \<Rightarrow> 'g \<Rightarrow> real list \<times> 'g" where
  "normal_draws ops loc scale 0 g = ([], g)"
| "normal_draws ops loc scale (Suc n) g =
     (case rng_normal ops loc scale g of (x, g1) \<Rightarrow>
        (case normal_draws ops loc scale n g1 of (xs, g2) \<Rightarrow> (x # xs, g2)))"

definition np_random_normal ::
  "'g rng \<Rightarrow> real \<Rightarrow> real \<Rightarrow> int \<Rightarrow> 'g \<Rightarrow> (error + real list) \<times> 'g" where
  "np_random_normal ops loc scale count g =
     (if count < 0 then (Inl ValueError, g)
      else (case normal_draws ops loc scale (nat count) g of (xs, g1) \<Rightarrow> (Inr xs, g1)))"

text \<open>
  Addition of two one-dimensional arrays with NumPy's broadcasting: equal lengths add
  elementwise, an array of length one is stretched, any other pair of shapes raises
  \<open>ValueError\<close>.
\<close>

definition broadcast_add :: "float64 list \<Rightarrow> float64 list \<Rightarrow> error + float64 list" where
  "broadcast_add xs ys =
     (if length xs = length ys then Inr (map2 f_add xs ys)
      else if length xs = 1 then Inr (map (\<lambda>y. f_add (xs ! 0) y) ys)
      else if length ys = 1 then Inr (map (\<lambda>x. f_add x (ys ! 0)) xs)
      else Inl ValueError)"

text \<open>\<open>np.clip\<close> with finite bounds, and \<open>np.max\<close> of a computed array (\<open>nan\<close> propagates).\<close>

fun np_clip :: "real \<Rightarrow> real \<Rightarrow> float64 \<Rightarrow> float64" where
  "np_clip lo hi (Fin x) = Fin (min (max x lo) hi)"
| "np_clip lo hi PInf = Fin hi"
| "np_clip lo hi NInf = Fin lo"
| "np_clip lo hi NaN = NaN"

fun f_maximum :: "float64 \<Rightarrow> float64 \<Rightarrow> float64" where
  "f_maximum NaN _ = NaN"
| "f_maximum _ NaN = NaN"
| "f_maximum a b = (if f_lt a b then b else a)"

fun np_max_f :: "float64 list \<Rightarrow> error + float64" where
  "np_max_f [] = Inl ValueError"
| "np_max_f (x # xs) = Inr (fold (\<lambda>y acc. f_maximum acc y) xs x)"

text \<open>Python's builtin \<open>min(a, b)\<close>: \<open>b\<close> if \<open>b < a\<close>, else \<open>a\<close>.\<close>

definition py_min :: "float64 \<Rightarrow> float64 \<Rightarrow> float64" where
  "py_min a b = (if f_lt b a then b else a)"

text \<open>Reading an array at a non-negative index, and at index \<open>-1\<close>.\<close>

definition arr_get :: "'a list \<Rightarrow> nat \<Rightarrow> error + 'a" where
  "arr_get xs i = (if i < length xs then Inr (xs ! i) else Inl IndexError)"

definition arr_last :: "'a list \<Rightarrow> error + 'a" where
  "arr_last xs = (if xs = [] then Inl IndexError else Inr (last xs))"

text \<open>
  The depth loop \<^verbatim>\<open>for i in range(1, time_steps)\<close>, over the list of its indices:
  \<^verbatim>\<open>canyon_depth[i] = canyon_depth[i-1] + (formation_probability[i] * (1 - canyon_depth[i-1]/1000) * 0.1)\<close>
  and then \<^verbatim>\<open>canyon_depth[i] = min(canyon_depth[i], 1000)\<close>.
\<close>

fun depth_loop :: "float64 list \<Rightarrow> nat list \<Rightarrow> float64 list \<Rightarrow> error + float64 list" where
  "depth_loop formation_probability [] canyon_depth = Inr canyon_depth"
| "depth_loop formation_probability (i # rest) canyon_depth =
     (case arr_get canyon_depth (i - 1) of Inl e \<Rightarrow> Inl e | Inr prev \<Rightarrow>
      (case arr_get formation_probability i of Inl e \<Rightarrow> Inl e | Inr p \<Rightarrow>
       (if i < length canyon_depth
        then depth_loop formation_probability rest
               (canyon_depth
                  [i := py_min
                          (f_add prev
                             (f_mul (f_mul p (f_sub (Fin 1) (f_div prev (Fin 1000)))) (Fin 0.1)))
                          (Fin 1000)])
        else Inl IndexError)))"

text \<open>The dictionary returned by \<open>simulate_canyon_formation\<close>.\<close>

record simulation_results =
  time_steps :: "int list"
  formation_probability :: "float64 list"
  canyon_depth :: "float64 list"
  peak_formation_probability :: float64
  final_depth :: float64

text \<open>
  \<open>simulate_canyon_formation\<close>, with the state of the global generator passed in and
  returned. The number of steps is an optional argument with default \<open>100\<close>.
\<close>

definition simulate_canyon_formation ::
  "'g rng \<Rightarrow> stress_field \<Rightarrow> real list \<Rightarrow> int option \<Rightarrow> 'g
     \<Rightarrow> (error + simulation_results) \<times> 'g" where
  "simulate_canyon_formation ops field seismic_activity steps_arg g =
     (let steps = (case steps_arg of None \<Rightarrow> 100 | Some t \<Rightarrow> t);
          stress_max = maximum_stress field;
          rate = strain_rate field
      in case minmax_normalize seismic_activity of Inl e \<Rightarrow> (Inl e, g)
         | Inr seismic_normalized \<Rightarrow>
        (let base =
               map (\<lambda>s. f_mul
                          (f_mul (f_div (Fin stress_max) (Fin (max stress_max (1 / 10 ^ 10))))
                                 (f_add s (Fin 0.1)))
                          (f_div (Fin rate) (Fin (max rate (1 / 10 ^ 15)))))
                   seismic_normalized
         in case np_random_normal ops 0 0.1 steps (rng_seed ops 42) of
              (Inl e, g1) \<Rightarrow> (Inl e, g1)
            | (Inr noise, g1) \<Rightarrow>
             (case broadcast_add base (map Fin noise) of Inl e \<Rightarrow> (Inl e, g1)
              | Inr noised \<Rightarrow>
               (let probability = map (np_clip 0 1) noised
                in case depth_loop probability [1..<nat steps] (replicate (nat steps) (Fin 0)) of
                     Inl e \<Rightarrow> (Inl e, g1)
                   | Inr depths \<Rightarrow>
                    (case np_max_f probability of Inl e \<Rightarrow> (Inl e, g1)
                     | Inr peak \<Rightarrow>
                      (case arr_last depths of Inl e \<Rightarrow> (Inl e, g1)
                       | Inr final \<Rightarrow>
                         (Inr \<lparr>time_steps = map int [0..<nat steps],
                               formation_probability = probability,
                               canyon_depth = depths,
                               peak_formation_probability = peak,
                               final_depth = final\<rparr>, g1)))))))"

text \<open>
  A small concrete generator, used to run the simulation on concrete inputs: the state is
  a counter, a draw returns \<open>loc + scale * ((g mod 7) - 3) / 3\<close>.
\<close>

definition counter_rng :: "nat rng" where
  "counter_rng =
     \<lparr>rng_seed = (\<lambda>s. s),
      rng_normal = (\<lambda>loc scale g. (loc + scale * (real (g mod 7) - 3) / 3, (5 * g + 3) mod 16))\<rparr>"

section \<open>Example inputs\<close>

text \<open>A data set of two records on which every column and the stress intensity vary.\<close>

definition example_records :: "seismic_record list" where
  "example_records =
     [\<lparr>magnitude = 4, depth = 10, distance_from_plate_boundary = 1,
        stress_tensor_xx = 0, stress_tensor_yy = 0, stress_tensor_xy = 0\<rparr>,
      \<lparr>magnitude = 6, depth = 30, distance_from_plate_boundary = 2,
        stress_tensor_xx = 2, stress_tensor_yy = 2, stress_tensor_xy = 0\<rparr>]"

text \<open>A stress field for running the simulation on concrete inputs.\<close>

definition example_field :: stress_field where
  "example_field =
     \<lparr>maximum_stress = 2, strain_rate = 1, normal_stress_x = 1.5, normal_stress_y = 1.5,
      shear_stress = 0.5\<rparr>"

section \<open>Properties of the stress intensity\<close>

lemma length_calculate_stress_intensity:
  "length (calculate_stress_intensity data) = length data"
  by (simp add: calculate_stress_intensity_def Let_def arr_sqrt_def arr_add_def arr_scale_def
      arr_sq_def arr_sub_def arr_div_const_def)

lemma nth_calculate_stress_intensity:
  assumes "i < length data"
  shows "calculate_stress_intensity data ! i =
    sqrt (0.5 * ((stress_tensor_xx (data ! i) - stress_tensor_yy (data ! i))\<^sup>2
                 + 4 * (stress_tensor_xy (data ! i))\<^sup>2)
          + (stress_tensor_xx (data ! i) + stress_tensor_yy (data ! i))\<^sup>2 / 4)"
  using assms
  by (simp add: calculate_stress_intensity_def Let_def arr_sqrt_def arr_add_def arr_scale_def
      arr_sq_def arr_sub_def arr_div_const_def)

text \<open>
  Claim C2. For every record of the data set, the stress intensity is
  \<open>sqrt (0.5 * ((xx - yy)\<^sup>2 + 4 * xy\<^sup>2) + (xx + yy)\<^sup>2 / 4)\<close> of its three tensor components,
  the second term divided by four, and it is non-negative; the result has one entry per
  record.
\<close>

theorem stress_intensity_formula:
  "length (calculate_stress_intensity data) = length data \<and>
   (\<forall>i<length data.
      calculate_stress_intensity data ! i =
        sqrt (0.5 * ((stress_tensor_xx (data ! i) - stress_tensor_yy (data ! i))\<^sup>2
                     + 4 * (stress_tensor_xy (data ! i))\<^sup>2)
              + (stress_tensor_xx (data ! i) + stress_tensor_yy (data ! i))\<^sup>2 / 4)
      \<and> 0 \<le> calculate_stress_intensity data ! i)"
proof (intro conjI allI impI)
  show "length (calculate_stress_intensity data) = length data"
    by (rule length_calculate_stress_intensity)
next
  fix i assume "i < length data"
  then show "calculate_stress_intensity data ! i =
        sqrt (0.5 * ((stress_tensor_xx (data ! i) - stress_tensor_yy (data ! i))\<^sup>2
                     + 4 * (stress_tensor_xy (data ! i))\<^sup>2)
              + (stress_tensor_xx (data ! i) + stress_tensor_yy (data ! i))\<^sup>2 / 4)"
    by (rule nth_calculate_stress_intensity)
next
  fix i assume i: "i < length data"
  show "0 \<le> calculate_stress_intensity data ! i"
    unfolding nth_calculate_stress_intensity [OF i]
    by (intro real_sqrt_ge_zero add_nonneg_nonneg mult_nonneg_nonneg) simp_all
qed

text \<open>
  At the tensor \<open>(2, 2, 0)\<close> the intensity is \<open>sqrt (0 + 16 / 4) = 2\<close>; a division of
  the second term by two would give \<open>sqrt 8\<close>.
\<close>

theorem stress_intensity_formula_witness:
  "(0::nat) < length [\<lparr>magnitude = 5, depth = 10, distance_from_plate_boundary = 1,
        stress_tensor_xx = 2, stress_tensor_yy = 2, stress_tensor_xy = 0\<rparr>] \<and>
   calculate_stress_intensity
     [\<lparr>magnitude = 5, depth = 10, distance_from_plate_boundary = 1,
        stress_tensor_xx = 2, stress_tensor_yy = 2, stress_tensor_xy = 0\<rparr>] ! 0 = 2 \<and>
   0 \<le> calculate_stress_intensity
     [\<lparr>magnitude = 5, depth = 10, distance_from_plate_boundary = 1,
        stress_tensor_xx = 2, stress_tensor_yy = 2, stress_tensor_xy = 0\<rparr>] ! 0"
  using stress_intensity_formula [of "[\<lparr>magnitude = 5, depth = 10, distance_from_plate_boundary = 1,
        stress_tensor_xx = 2, stress_tensor_yy = 2, stress_tensor_xy = 0\<rparr>]"]
  by simp

text \<open>
  Claim C5. The stress intensity is symmetric in the two normal components: exchanging
  \<open>xx\<close> and \<open>yy\<close> with \<open>xy\<close> unchanged gives the same value, for one record with
  arbitrary components and for a whole data set.
\<close>

theorem stress_intensity_symmetric:
  "calculate_stress_intensity (map swap_normal data) = calculate_stress_intensity data \<and>
   calculate_stress_intensity
     [r\<lparr>stress_tensor_xx := yy, stress_tensor_yy := xx, stress_tensor_xy := xy\<rparr>] =
   calculate_stress_intensity
     [r\<lparr>stress_tensor_xx := xx, stress_tensor_yy := yy, stress_tensor_xy := xy\<rparr>]"
proof
  show "calculate_stress_intensity (map swap_normal data) = calculate_stress_intensity data"
    by (rule nth_equalityI)
      (simp_all add: length_calculate_stress_intensity nth_calculate_stress_intensity
        swap_normal_def power2_commute add.commute)
  show "calculate_stress_intensity
     [r\<lparr>stress_tensor_xx := yy, stress_tensor_yy := xx, stress_tensor_xy := xy\<rparr>] =
   calculate_stress_intensity
     [r\<lparr>stress_tensor_xx := xx, stress_tensor_yy := yy, stress_tensor_xy := xy\<rparr>]"
    by (rule nth_equalityI)
      (simp_all add: length_calculate_stress_intensity nth_calculate_stress_intensity
        power2_commute add.commute)
qed

section \<open>Properties of the risk assessment\<close>

lemma np_min_eq: "xs \<noteq> [] \<Longrightarrow> np_min xs = Inr (Min (set xs))"
  by (cases xs) (simp_all add: Min.set_eq_fold [symmetric])

lemma np_max_eq: "xs \<noteq> [] \<Longrightarrow> np_max xs = Inr (Max (set xs))"
  by (cases xs) (simp_all add: Max.set_eq_fold [symmetric])

lemma minmax_normalize_eq:
  "v \<noteq> [] \<Longrightarrow> minmax_normalize v =
     Inr (map (\<lambda>x. f_div (Fin (x - Min (set v))) (Fin (Max (set v) - Min (set v)))) v)"
  by (simp add: minmax_normalize_def np_min_eq np_max_eq arr_div_scalar_def arr_sub_scalar_def
      comp_def)

lemma minmax_normalize_empty: "minmax_normalize [] = Inl ValueError"
  by (simp add: minmax_normalize_def)

lemma categorize_eq: "categorize scores acc = acc @ map risk_label scores"
  by (induction scores arbitrary: acc) simp_all

lemma assess_seismic_risk_empty: "assess_seismic_risk [] = Inl ValueError"
  by (simp add: assess_seismic_risk_def minmax_normalize_empty)

lemma assess_seismic_risk_fields:
  assumes "data \<noteq> []"
  shows "\<exists>r. assess_seismic_risk data = Inr r \<and>
    risk_levels r = map risk_label (risk_scores r) \<and>
    max_stress r = Max (set (calculate_stress_intensity data)) \<and>
    risk_scores r =
           map2 f_add
             (map2 f_add
                (map (\<lambda>x. f_div (Fin (0.4 * (x - Min (set (calculate_stress_intensity data)))))
                               (Fin (Max (set (calculate_stress_intensity data))
                                     - Min (set (calculate_stress_intensity data)))))
                   (calculate_stress_intensity data))
                (map (\<lambda>x. f_mul (Fin 0.3)
                        (f_div (Fin (magnitude x - Min (magnitude ` set data)))
                               (Fin (Max (magnitude ` set data) - Min (magnitude ` set data)))))
                   data))
             (map (\<lambda>x. f_mul (Fin 0.3)
                     (f_sub (Fin 1)
                        (f_div (Fin (depth x - Min (depth ` set data)))
                               (Fin (Max (depth ` set data) - Min (depth ` set data))))))
                data)"
proof -
  have si: "calculate_stress_intensity data \<noteq> []"
    using assms length_calculate_stress_intensity [of data] by auto
  have m: "map magnitude data \<noteq> []" and d: "map depth data \<noteq> []"
    using assms by simp_all
  show ?thesis
    unfolding assess_seismic_risk_def Let_def minmax_normalize_eq [OF m]
      minmax_normalize_eq [OF d] np_min_eq [OF si] np_max_eq [OF si]
    by (simp add: categorize_eq arr_fadd_def arr_div_scalar_def arr_scale_def
        arr_sub_scalar_def arr_fscale_def arr_frsub_def comp_def)
qed

lemma assess_seismic_risk_nonempty:
  assumes "assess_seismic_risk data = Inr r"
  shows "data \<noteq> []"
  using assms by (auto simp: assess_seismic_risk_empty)

lemma assess_seismic_risk_levels:
  assumes "assess_seismic_risk data = Inr r"
  shows "risk_levels r = map risk_label (risk_scores r)"
proof -
  have ne: "data \<noteq> []" using assms by (rule assess_seismic_risk_nonempty)
  from assess_seismic_risk_fields [OF ne] obtain r' where
    r': "assess_seismic_risk data = Inr r'" "risk_levels r' = map risk_label (risk_scores r')"
    by blast
  from r'(1) assms have "r' = r" by simp
  with r'(2) show ?thesis by simp
qed

lemma assess_seismic_risk_nth:
  assumes "assess_seismic_risk data = Inr r"
  shows "length (risk_scores r) = length data"
    and "i < length data \<Longrightarrow> risk_scores r ! i =
    f_add
      (f_add
         (f_div (Fin (0.4 * (calculate_stress_intensity data ! i
                              - Min (set (calculate_stress_intensity data)))))
                (Fin (Max (set (calculate_stress_intensity data))
                      - Min (set (calculate_stress_intensity data)))))
         (f_mul (Fin 0.3)
            (f_div (Fin (magnitude (data ! i) - Min (magnitude ` set data)))
                   (Fin (Max (magnitude ` set data) - Min (magnitude ` set data))))))
      (f_mul (Fin 0.3)
         (f_sub (Fin 1)
            (f_div (Fin (depth (data ! i) - Min (depth ` set data)))
                   (Fin (Max (depth ` set data) - Min (depth ` set data))))))"
proof -
  have ne: "data \<noteq> []" using assms(1) by (rule assess_seismic_risk_nonempty)
  from assess_seismic_risk_fields [OF ne] obtain r' where
    r': "assess_seismic_risk data = Inr r'" and
    sc: "risk_scores r' =
           map2 f_add
             (map2 f_add
                (map (\<lambda>x. f_div (Fin (0.4 * (x - Min (set (calculate_stress_intensity data)))))
                               (Fin (Max (set (calculate_stress_intensity data))
                                     - Min (set (calculate_stress_intensity data)))))
                   (calculate_stress_intensity data))
                (map (\<lambda>x. f_mul (Fin 0.3)
                        (f_div (Fin (magnitude x - Min (magnitude ` set data)))
                               (Fin (Max (magnitude ` set data) - Min (magnitude ` set data)))))
                   data))
             (map (\<lambda>x. f_mul (Fin 0.3)
                     (f_sub (Fin 1)
                        (f_div (Fin (depth x - Min (depth ` set data)))
                               (Fin (Max (depth ` set data) - Min (depth ` set data))))))
                data)"
    by blast
  from r' assms have eq: "r' = r" by simp
  show "length (risk_scores r) = length data"
    unfolding eq [symmetric] sc by (simp add: length_calculate_stress_intensity)
  show "risk_scores r ! i = f_add
      (f_add
         (f_div (Fin (0.4 * (calculate_stress_intensity data ! i
                              - Min (set (calculate_stress_intensity data)))))
                (Fin (Max (set (calculate_stress_intensity data))
                      - Min (set (calculate_stress_intensity data)))))
         (f_mul (Fin 0.3)
            (f_div (Fin (magnitude (data ! i) - Min (magnitude ` set data)))
                   (Fin (Max (magnitude ` set data) - Min (magnitude ` set data))))))
      (f_mul (Fin 0.3)
         (f_sub (Fin 1)
            (f_div (Fin (depth (data ! i) - Min (depth ` set data)))
                   (Fin (Max (depth ` set data) - Min (depth ` set data))))))"
    if "i < length data"
    unfolding eq [symmetric] sc using that by (simp add: length_calculate_stress_intensity)
qed


lemma unit_fraction:
  fixes x lo hi :: real
  assumes "lo \<le> x" and "x \<le> hi" and "hi \<noteq> lo"
  shows "0 \<le> (x - lo) / (hi - lo)" and "(x - lo) / (hi - lo) \<le> 1"
proof -
  have pos: "0 < hi - lo" using assms by linarith
  show "0 \<le> (x - lo) / (hi - lo)"
    using pos assms(1) by (simp add: divide_nonneg_pos)
  show "(x - lo) / (hi - lo) \<le> 1"
    using pos assms(2) by (simp add: divide_le_eq)
qed

lemma composite_unit:
  fixes a b c :: real
  assumes "0 \<le> a" "a \<le> 1" "0 \<le> b" "b \<le> 1" "0 \<le> c" "c \<le> 1"
  shows "0 \<le> 0.4 * a + 0.3 * b + 0.3 * (1 - c)" and "0.4 * a + 0.3 * b + 0.3 * (1 - c) \<le> 1"
proof -
  show "0 \<le> 0.4 * a + 0.3 * b + 0.3 * (1 - c)"
    using assms by (intro add_nonneg_nonneg mult_nonneg_nonneg) simp_all
  have "0.4 * a \<le> 0.4" "0.3 * b \<le> 0.3" "0.3 * (1 - c) \<le> 0.3"
    using assms by simp_all
  then show "0.4 * a + 0.3 * b + 0.3 * (1 - c) \<le> 1"
    by linarith
qed

text \<open>
  Claim C1. When the magnitude column, the depth column and the stress intensities are
  each non-constant (their maximum differs from their minimum), \<open>assess_seismic_risk\<close>
  returns, with one score per record, and every score is a finite number in the closed
  interval from 0 to 1.
\<close>

theorem risk_scores_unit_interval:
  assumes "data \<noteq> []"
    and "Max (magnitude ` set data) \<noteq> Min (magnitude ` set data)"
    and "Max (depth ` set data) \<noteq> Min (depth ` set data)"
    and "Max (set (calculate_stress_intensity data)) \<noteq> Min (set (calculate_stress_intensity data))"
  shows "\<exists>r. assess_seismic_risk data = Inr r \<and> length (risk_scores r) = length data \<and>
    (\<forall>s \<in> set (risk_scores r). \<exists>x. s = Fin x \<and> 0 \<le> x \<and> x \<le> 1)"
proof -
  from assess_seismic_risk_fields [OF assms(1)] obtain r
    where r: "assess_seismic_risk data = Inr r" by blast
  have len: "length (risk_scores r) = length data"
    by (rule assess_seismic_risk_nth(1) [OF r])
  have "\<exists>x. s = Fin x \<and> 0 \<le> x \<and> x \<le> 1" if "s \<in> set (risk_scores r)" for s
  proof -
    from that len obtain i where i: "i < length data" and s: "s = risk_scores r ! i"
      by (auto simp: in_set_conv_nth)
    let ?si = "calculate_stress_intensity data"
    let ?a = "(?si ! i - Min (set ?si)) / (Max (set ?si) - Min (set ?si))"
    let ?b = "(magnitude (data ! i) - Min (magnitude ` set data))
                / (Max (magnitude ` set data) - Min (magnitude ` set data))"
    let ?c = "(depth (data ! i) - Min (depth ` set data))
                / (Max (depth ` set data) - Min (depth ` set data))"
    have isi: "?si ! i \<in> set ?si"
      using i by (simp add: length_calculate_stress_intensity)
    have im: "magnitude (data ! i) \<in> magnitude ` set data"
      and id: "depth (data ! i) \<in> depth ` set data"
      using i by simp_all
    have a: "0 \<le> ?a" "?a \<le> 1"
      using isi assms(4) by (auto intro!: unit_fraction)
    have b: "0 \<le> ?b" "?b \<le> 1"
      using im assms(2) by (auto intro!: unit_fraction)
    have c: "0 \<le> ?c" "?c \<le> 1"
      using id assms(3) by (auto intro!: unit_fraction)
    have "s = Fin (0.4 * ?a + 0.3 * ?b + 0.3 * (1 - ?c))"
      unfolding s assess_seismic_risk_nth(2) [OF r i]
      using assms(2,3,4) by (simp add: f_sub_def)
    with composite_unit [OF a b c] show ?thesis by blast
  qed
  with r len show ?thesis by blast
qed


lemma example_stress_intensity: "calculate_stress_intensity example_records = [0, 2]"
  by (simp add: example_records_def calculate_stress_intensity_def arr_sqrt_def arr_add_def
      arr_scale_def arr_sq_def arr_sub_def arr_div_const_def)

lemma example_assess:
  "\<exists>r. assess_seismic_risk example_records = Inr r \<and>
       risk_scores r = [Fin 0.3, Fin 0.7] \<and> risk_levels r = [''Low'', ''High'']"
  unfolding assess_seismic_risk_def example_stress_intensity
  by (simp add: example_records_def minmax_normalize_def arr_div_scalar_def arr_sub_scalar_def
      arr_scale_def arr_fadd_def arr_fscale_def arr_frsub_def f_sub_def risk_label_def Let_def)

theorem risk_scores_unit_interval_witness:
  "example_records \<noteq> [] \<and>
   Max (magnitude ` set example_records) \<noteq> Min (magnitude ` set example_records) \<and>
   Max (depth ` set example_records) \<noteq> Min (depth ` set example_records) \<and>
   Max (set (calculate_stress_intensity example_records))
     \<noteq> Min (set (calculate_stress_intensity example_records)) \<and>
   (\<exists>r. assess_seismic_risk example_records = Inr r \<and>
        length (risk_scores r) = length example_records \<and>
        (\<forall>s \<in> set (risk_scores r). \<exists>x. s = Fin x \<and> 0 \<le> x \<and> x \<le> 1))"
proof -
  have h1: "example_records \<noteq> []"
    by (simp add: example_records_def)
  have h2: "Max (magnitude ` set example_records) \<noteq> Min (magnitude ` set example_records)"
    by (simp add: example_records_def)
  have h3: "Max (depth ` set example_records) \<noteq> Min (depth ` set example_records)"
    by (simp add: example_records_def)
  have h4: "Max (set (calculate_stress_intensity example_records))
     \<noteq> Min (set (calculate_stress_intensity example_records))"
    by (simp add: example_stress_intensity)
  from risk_scores_unit_interval [OF h1 h2 h3 h4] h1 h2 h3 h4 show ?thesis
    by blast
qed


lemma risk_label_very_high: "(risk_label (Fin s) = ''Very High'') = (0.8 \<le> s)"
  by (simp add: risk_label_def)

lemma risk_label_high: "(risk_label (Fin s) = ''High'') = (0.6 \<le> s \<and> s < 0.8)"
  by (auto simp: risk_label_def)

lemma risk_label_moderate: "(risk_label (Fin s) = ''Moderate'') = (0.4 \<le> s \<and> s < 0.6)"
  by (auto simp: risk_label_def)

lemma risk_label_low: "(risk_label (Fin s) = ''Low'') = (0.2 \<le> s \<and> s < 0.4)"
  by (auto simp: risk_label_def)

lemma risk_label_very_low: "(risk_label (Fin s) = ''Very Low'') = (s < 0.2)"
  by (auto simp: risk_label_def)

lemma risk_label_special:
  "risk_label NaN = ''Very Low''" "risk_label PInf = ''Very High''"
  "risk_label NInf = ''Very Low''"
  by (simp_all add: risk_label_def)

text \<open>
  Claim C3. The label of a score is fixed by the thresholds 0.8, 0.6, 0.4 and 0.2, each
  inclusive on its lower edge and tried from high to low, and \<open>assess_seismic_risk\<close>
  gives every record the label of its own score. In particular 0.8 is Very High, 0.79999
  and 0.6 are High, 0.4 is Moderate, 0.2 is Low and 0 is Very Low.
\<close>

theorem risk_label_thresholds:
  "(data \<noteq> [] \<longrightarrow>
      (\<exists>r. assess_seismic_risk data = Inr r \<and>
           length (risk_levels r) = length data \<and> length (risk_scores r) = length data \<and>
           (\<forall>i<length data. risk_levels r ! i = risk_label (risk_scores r ! i)))) \<and>
   (risk_label (Fin s) = ''Very High'') = (0.8 \<le> s) \<and>
   (risk_label (Fin s) = ''High'') = (0.6 \<le> s \<and> s < 0.8) \<and>
   (risk_label (Fin s) = ''Moderate'') = (0.4 \<le> s \<and> s < 0.6) \<and>
   (risk_label (Fin s) = ''Low'') = (0.2 \<le> s \<and> s < 0.4) \<and>
   (risk_label (Fin s) = ''Very Low'') = (s < 0.2) \<and>
   risk_label (Fin 0.8) = ''Very High'' \<and>
   risk_label (Fin 0.79999) = ''High'' \<and>
   risk_label (Fin 0.6) = ''High'' \<and>
   risk_label (Fin 0.4) = ''Moderate'' \<and>
   risk_label (Fin 0.2) = ''Low'' \<and>
   risk_label (Fin 0) = ''Very Low''"
proof -
  have loop: "data \<noteq> [] \<longrightarrow>
      (\<exists>r. assess_seismic_risk data = Inr r \<and>
           length (risk_levels r) = length data \<and> length (risk_scores r) = length data \<and>
           (\<forall>i<length data. risk_levels r ! i = risk_label (risk_scores r ! i)))"
  proof
    assume "data \<noteq> []"
    then obtain r where r: "assess_seismic_risk data = Inr r"
      using assess_seismic_risk_fields by blast
    have lv: "risk_levels r = map risk_label (risk_scores r)"
      by (rule assess_seismic_risk_levels [OF r])
    have len: "length (risk_scores r) = length data"
      by (rule assess_seismic_risk_nth(1) [OF r])
    from r lv len show "\<exists>r. assess_seismic_risk data = Inr r \<and>
           length (risk_levels r) = length data \<and> length (risk_scores r) = length data \<and>
           (\<forall>i<length data. risk_levels r ! i = risk_label (risk_scores r ! i))"
      by auto
  qed
  have c1: "risk_label (Fin 0.8) = ''Very High''" by (simp add: risk_label_very_high)
  have c2: "risk_label (Fin 0.79999) = ''High''" by (simp add: risk_label_high)
  have c3: "risk_label (Fin 0.6) = ''High''" by (simp add: risk_label_high)
  have c4: "risk_label (Fin 0.4) = ''Moderate''" by (simp add: risk_label_moderate)
  have c5: "risk_label (Fin 0.2) = ''Low''" by (simp add: risk_label_low)
  have c6: "risk_label (Fin 0) = ''Very Low''" by (simp add: risk_label_very_low)
  show ?thesis
    using loop risk_label_very_high [of s] risk_label_high [of s] risk_label_moderate [of s]
      risk_label_low [of s] risk_label_very_low [of s] c1 c2 c3 c4 c5 c6
    by (intro conjI)
qed

theorem risk_label_thresholds_witness:
  "example_records \<noteq> [] \<and>
   (\<exists>r. assess_seismic_risk example_records = Inr r \<and>
        length (risk_levels r) = length example_records \<and>
        length (risk_scores r) = length example_records \<and>
        (\<forall>i<length example_records. risk_levels r ! i = risk_label (risk_scores r ! i))) \<and>
   risk_label (Fin 0.7) = ''High'' \<and> (0.6 \<le> (0.7::real) \<and> (0.7::real) < 0.8)"
proof -
  have h: "example_records \<noteq> []"
    by (simp add: example_records_def)
  from risk_label_thresholds [of example_records "0.7"] h show ?thesis
    by simp
qed

lemma count_level_Nil: "count_level [] l = 0"
  by (simp add: count_level_def)

lemma count_level_Cons: "count_level (x # xs) l = (if x = l then 1 else 0) + count_level xs l"
  by (simp add: count_level_def)

lemma count_level_nonneg: "0 \<le> count_level levels l"
  by (induction levels) (simp_all add: count_level_Nil count_level_Cons)

lemma risk_label_cases:
  "risk_label s = ''Very High'' \<or> risk_label s = ''High'' \<or> risk_label s = ''Moderate'' \<or>
   risk_label s = ''Low'' \<or> risk_label s = ''Very Low''"
  by (simp add: risk_label_def)

lemma count_one_label:
  "(if risk_label s = ''Very High'' then 1 else 0) + (if risk_label s = ''High'' then 1 else 0)
   + (if risk_label s = ''Moderate'' then 1 else 0) + (if risk_label s = ''Low'' then 1 else 0)
   + (if risk_label s = ''Very Low'' then 1 else (0::int)) = 1"
  by (simp add: risk_label_def)

lemma count_level_total:
  "count_level (map risk_label scores) ''Very High''
   + count_level (map risk_label scores) ''High''
   + count_level (map risk_label scores) ''Moderate''
   + count_level (map risk_label scores) ''Low''
   + count_level (map risk_label scores) ''Very Low'' = int (length scores)"
proof (induction scores)
  case Nil
  show ?case by (simp add: count_level_Nil)
next
  case (Cons s scores)
  show ?case
    using Cons.IH count_one_label [of s]
    by (simp only: list.map count_level_Cons list.size)
qed

lemma f_ge_mono: "f_ge s (Fin a) \<Longrightarrow> b \<le> a \<Longrightarrow> f_ge s (Fin b)"
  by (cases s) simp_all

lemma risk_label_high_iff:
  "(risk_label s = ''Very High'' \<or> risk_label s = ''High'') = f_ge s (Fin 0.6)"
proof (cases "f_ge s (Fin 0.8)")
  case True
  then have "f_ge s (Fin 0.6)" by (rule f_ge_mono) simp
  with True show ?thesis by (simp add: risk_label_def)
next
  case False
  then show ?thesis by (simp add: risk_label_def)
qed

lemma predictions_count:
  "int (length (filter (\<lambda>p. p = 1)
          (map (\<lambda>s. if f_ge s (Fin 0.6) then 1 else (0::int)) scores))) =
   count_level (map risk_label scores) ''Very High''
   + count_level (map risk_label scores) ''High''"
proof (induction scores)
  case Nil
  show ?case by (simp add: count_level_Nil)
next
  case (Cons s scores)
  have one: "(if f_ge s (Fin 0.6) then 1 else (0::int)) =
     (if risk_label s = ''Very High'' then 1 else 0) + (if risk_label s = ''High'' then 1 else 0)"
    using risk_label_high_iff [of s] by (auto simp: risk_label_def)
  show ?case
    using Cons.IH one by (simp add: count_level_Cons)
qed

lemma assess_canyon_risk_eq:
  assumes "assess_seismic_risk data = Inr r"
  shows "assess_canyon_risk data thr =
    Inr (map (\<lambda>s. if f_ge s (Fin (case thr of None \<Rightarrow> 0.6 | Some t \<Rightarrow> t)) then 1 else 0)
           (risk_scores r),
         [(''Very High'', count_level (risk_levels r) ''Very High''),
          (''High'', count_level (risk_levels r) ''High''),
          (''Moderate'', count_level (risk_levels r) ''Moderate''),
          (''Low'', count_level (risk_levels r) ''Low''),
          (''Very Low'', count_level (risk_levels r) ''Very Low'')])"
  using assms by (simp add: assess_canyon_risk_def Let_def)

lemma assess_canyon_risk_empty: "assess_canyon_risk [] thr = Inl ValueError"
  by (simp add: assess_canyon_risk_def assess_seismic_risk_empty)

text \<open>
  Claim C4. For every data set with at least one record (on the empty data set the
  first \<open>min()\<close> raises \<open>ValueError\<close> and no mapping is returned), \<open>assess_canyon_risk\<close>
  returns a mapping whose keys are the five labels, each with a non-negative count that is
  the number of records with that label, also when that number is zero, and the five
  counts add up to the number of records. This holds for constant columns too, where all
  scores are \<open>nan\<close>.
\<close>

theorem risk_counts_total:
  assumes "data \<noteq> []"
  shows "\<exists>r predictions risk_counts.
     assess_seismic_risk data = Inr r \<and>
     assess_canyon_risk data thr = Inr (predictions, risk_counts) \<and>
     map fst risk_counts = [''Very High'', ''High'', ''Moderate'', ''Low'', ''Very Low''] \<and>
     (\<forall>l \<in> set (map fst risk_counts).
        map_of risk_counts l = Some (int (length (filter (\<lambda>x. x = l) (risk_levels r))))) \<and>
     sum_list (map snd risk_counts) = int (length data)"
proof -
  from assms obtain r where r: "assess_seismic_risk data = Inr r"
    using assess_seismic_risk_fields by blast
  have lv: "risk_levels r = map risk_label (risk_scores r)"
    by (rule assess_seismic_risk_levels [OF r])
  have len: "length (risk_scores r) = length data"
    by (rule assess_seismic_risk_nth(1) [OF r])
  let ?counts = "[(''Very High'', count_level (risk_levels r) ''Very High''),
          (''High'', count_level (risk_levels r) ''High''),
          (''Moderate'', count_level (risk_levels r) ''Moderate''),
          (''Low'', count_level (risk_levels r) ''Low''),
          (''Very Low'', count_level (risk_levels r) ''Very Low'')]"
  have keys: "map fst ?counts = [''Very High'', ''High'', ''Moderate'', ''Low'', ''Very Low'']"
    by simp
  have cl: "count_level levels l = int (length (filter (\<lambda>x. x = l) levels))" for levels l
    by (induction levels) (simp_all add: count_level_Nil count_level_Cons)
  have look: "\<forall>l \<in> set (map fst ?counts).
        map_of ?counts l = Some (int (length (filter (\<lambda>x. x = l) (risk_levels r))))"
    unfolding keys by (simp add: cl)
  have total: "sum_list (map snd ?counts) = int (length data)"
    using count_level_total [of "risk_scores r"] by (simp add: lv len)
  let ?predictions =
    "map (\<lambda>s. if f_ge s (Fin (case thr of None \<Rightarrow> 0.6 | Some t \<Rightarrow> t)) then 1 else (0::int))
       (risk_scores r)"
  have ret: "assess_canyon_risk data thr = Inr (?predictions, ?counts)"
    by (rule assess_canyon_risk_eq [OF r])
  from r ret keys look total show ?thesis
    by (intro exI [of _ r] exI [of _ "?predictions"] exI [of _ "?counts"] conjI)
qed


lemma example_canyon_risk:
  "assess_canyon_risk example_records None =
     Inr ([0, 1], [(''Very High'', 0), (''High'', 1), (''Moderate'', 0), (''Low'', 1),
                   (''Very Low'', 0)])"
proof -
  from example_assess obtain r where r: "assess_seismic_risk example_records = Inr r"
    and sc: "risk_scores r = [Fin 0.3, Fin 0.7]" and lv: "risk_levels r = [''Low'', ''High'']"
    by blast
  show ?thesis
    unfolding assess_canyon_risk_eq [OF r] sc lv
    by (simp add: count_level_Nil count_level_Cons)
qed

theorem risk_counts_total_witness:
  "example_records \<noteq> [] \<and>
   (\<exists>r predictions risk_counts.
     assess_seismic_risk example_records = Inr r \<and>
     assess_canyon_risk example_records None = Inr (predictions, risk_counts) \<and>
     map fst risk_counts = [''Very High'', ''High'', ''Moderate'', ''Low'', ''Very Low''] \<and>
     (\<forall>l \<in> set (map fst risk_counts).
        map_of risk_counts l = Some (int (length (filter (\<lambda>x. x = l) (risk_levels r))))) \<and>
     sum_list (map snd risk_counts) = int (length example_records))"
proof -
  have h: "example_records \<noteq> []"
    by (simp add: example_records_def)
  from risk_counts_total [OF h, of None] h show ?thesis
    by (intro conjI)
qed

text \<open>
  Claim C10. For every data set with at least one record, \<open>assess_canyon_risk\<close> with the
  default threshold returns one prediction per record; a record is predicted 1 exactly
  when its score is at least 0.6, which is exactly when its label is High or Very High; so
  the number of predictions equal to 1 is the count of Very High plus the count of High.
\<close>

theorem default_predictions_match_high_labels:
  assumes "data \<noteq> []"
  shows "\<exists>r predictions risk_counts vh h.
     assess_seismic_risk data = Inr r \<and>
     assess_canyon_risk data None = Inr (predictions, risk_counts) \<and>
     map_of risk_counts ''Very High'' = Some vh \<and>
     map_of risk_counts ''High'' = Some h \<and>
     int (length (filter (\<lambda>p. p = 1) predictions)) = vh + h \<and>
     length predictions = length data \<and>
     (\<forall>i<length data.
        (predictions ! i = 1) = f_ge (risk_scores r ! i) (Fin 0.6) \<and>
        (predictions ! i = 1) =
          (risk_levels r ! i = ''Very High'' \<or> risk_levels r ! i = ''High''))"
proof -
  from assms obtain r where r: "assess_seismic_risk data = Inr r"
    using assess_seismic_risk_fields by blast
  have lv: "risk_levels r = map risk_label (risk_scores r)"
    by (rule assess_seismic_risk_levels [OF r])
  have len: "length (risk_scores r) = length data"
    by (rule assess_seismic_risk_nth(1) [OF r])
  let ?predictions =
    "map (\<lambda>s. if f_ge s (Fin 0.6) then 1 else (0::int)) (risk_scores r)"
  let ?counts = "[(''Very High'', count_level (risk_levels r) ''Very High''),
          (''High'', count_level (risk_levels r) ''High''),
          (''Moderate'', count_level (risk_levels r) ''Moderate''),
          (''Low'', count_level (risk_levels r) ''Low''),
          (''Very Low'', count_level (risk_levels r) ''Very Low'')]"
  have ret: "assess_canyon_risk data None = Inr (?predictions, ?counts)"
    using assess_canyon_risk_eq [OF r, of None] by simp
  have vh: "map_of ?counts ''Very High'' = Some (count_level (risk_levels r) ''Very High'')"
    by simp
  have h: "map_of ?counts ''High'' = Some (count_level (risk_levels r) ''High'')"
    by simp
  have cnt: "int (length (filter (\<lambda>p. p = 1) ?predictions)) =
      count_level (risk_levels r) ''Very High'' + count_level (risk_levels r) ''High''"
    unfolding lv by (rule predictions_count)
  have plen: "length ?predictions = length data"
    by (simp add: len)
  have each: "\<forall>i<length data.
        (?predictions ! i = 1) = f_ge (risk_scores r ! i) (Fin 0.6) \<and>
        (?predictions ! i = 1) =
          (risk_levels r ! i = ''Very High'' \<or> risk_levels r ! i = ''High'')"
    unfolding lv using risk_label_high_iff by (simp add: len)
  from r ret vh h cnt plen each show ?thesis
    by (intro exI [of _ r] exI [of _ "?predictions"] exI [of _ "?counts"]
        exI [of _ "count_level (risk_levels r) ''Very High''"]
        exI [of _ "count_level (risk_levels r) ''High''"] conjI)
qed

theorem default_predictions_match_high_labels_witness:
  "example_records \<noteq> [] \<and>
   (\<exists>r predictions risk_counts vh h.
     assess_seismic_risk example_records = Inr r \<and>
     assess_canyon_risk example_records None = Inr (predictions, risk_counts) \<and>
     map_of risk_counts ''Very High'' = Some vh \<and>
     map_of risk_counts ''High'' = Some h \<and>
     int (length (filter (\<lambda>p. p = 1) predictions)) = vh + h \<and>
     length predictions = length example_records \<and>
     (\<forall>i<length example_records.
        (predictions ! i = 1) = f_ge (risk_scores r ! i) (Fin 0.6) \<and>
        (predictions ! i = 1) =
          (risk_levels r ! i = ''Very High'' \<or> risk_levels r ! i = ''High'')))"
proof -
  have h: "example_records \<noteq> []"
    by (simp add: example_records_def)
  from default_predictions_match_high_labels [OF h] h show ?thesis
    by (intro conjI)
qed

text \<open>
  A data set of two equal records: every normalisation is \<open>0/0\<close>, all scores are
  \<open>nan\<close>, all labels Very Low and all predictions 0.
\<close>

lemma constant_records_nan:
  "assess_canyon_risk [r, r] None =
     Inr ([0, 0], [(''Very High'', 0), (''High'', 0), (''Moderate'', 0), (''Low'', 0),
                   (''Very Low'', 2)])"
proof -
  obtain s where s: "calculate_stress_intensity [r, r] = [s, s]"
    by (simp add: calculate_stress_intensity_def arr_sqrt_def arr_add_def
      arr_scale_def arr_sq_def arr_sub_def arr_div_const_def)
  have a: "\<exists>ra. assess_seismic_risk [r, r] = Inr ra \<and> risk_scores ra = [NaN, NaN] \<and>
      risk_levels ra = [''Very Low'', ''Very Low'']"
    unfolding assess_seismic_risk_def s
    by (simp add: minmax_normalize_def arr_div_scalar_def arr_sub_scalar_def
      arr_scale_def arr_fadd_def arr_fscale_def arr_frsub_def f_sub_def risk_label_def Let_def)
  then obtain ra where ra: "assess_seismic_risk [r, r] = Inr ra"
    and sc: "risk_scores ra = [NaN, NaN]" and lv: "risk_levels ra = [''Very Low'', ''Very Low'']"
    by blast
  show ?thesis
    unfolding assess_canyon_risk_eq [OF ra] sc lv
    by (simp add: count_level_Nil count_level_Cons)
qed

section \<open>Properties of the stress model\<close>

lemma calculate_stress_distribution_eq:
  assumes "elastic_thickness \<noteq> 0"
  shows "calculate_stress_distribution plate_velocity crustal_thickness elastic_thickness arg =
    Inr \<lparr>maximum_stress =
            (plate_velocity * (1 / 100) / 365.25 / 24 / 3600 * crustal_thickness * 1000)
              / (elastic_thickness * 1000),
          strain_rate = plate_velocity * (1 / 100) / 365.25 / 24 / 3600 / (elastic_thickness * 1000),
          normal_stress_x =
            (plate_velocity * (1 / 100) / 365.25 / 24 / 3600 * crustal_thickness * 1000)
              / (elastic_thickness * 1000) * (1 - (case arg of None \<Rightarrow> 0.25 | Some p \<Rightarrow> p)),
          normal_stress_y =
            (plate_velocity * (1 / 100) / 365.25 / 24 / 3600 * crustal_thickness * 1000)
              / (elastic_thickness * 1000) * (1 - (case arg of None \<Rightarrow> 0.25 | Some p \<Rightarrow> p)),
          shear_stress =
            (plate_velocity * (1 / 100) / 365.25 / 24 / 3600 * crustal_thickness * 1000)
              / (elastic_thickness * 1000) * (case arg of None \<Rightarrow> 0.25 | Some p \<Rightarrow> p)\<rparr>"
  using assms unfolding calculate_stress_distribution_def Let_def by simp

lemma calculate_stress_distribution_zero:
  "calculate_stress_distribution plate_velocity crustal_thickness 0 arg = Inl ZeroDivisionError"
  by (simp add: calculate_stress_distribution_def)

lemma velocity_conversion:
  "(v::real) * (1 / 100) / 365.25 / 24 / 3600 = v / (365.25 * 24 * 3600 * 100)"
  by simp

text \<open>
  Claim C6. With a nonzero elastic thickness \<open>calculate_stress_distribution\<close> returns;
  the maximum stress is the velocity divided by \<open>365.25 * 24 * 3600 * 100\<close>, times the
  crustal thickness in metres, divided by the elastic thickness in metres; the shear stress
  is Poisson's ratio times the maximum stress and both normal stresses are one minus
  Poisson's ratio times the maximum stress. With the default ratio these factors are 0.25
  and 0.75.
\<close>

theorem stress_distribution_formula:
  assumes "elastic_thickness \<noteq> 0"
  shows
    "(\<exists>sf. calculate_stress_distribution plate_velocity crustal_thickness elastic_thickness
             (Some poissons_ratio) = Inr sf \<and>
        maximum_stress sf =
          (plate_velocity / (365.25 * 24 * 3600 * 100)) * (crustal_thickness * 1000)
            / (elastic_thickness * 1000) \<and>
        shear_stress sf = poissons_ratio * maximum_stress sf \<and>
        normal_stress_x sf = normal_stress_y sf \<and>
        normal_stress_x sf = (1 - poissons_ratio) * maximum_stress sf) \<and>
     (\<exists>sf. calculate_stress_distribution plate_velocity crustal_thickness elastic_thickness
             None = Inr sf \<and>
        maximum_stress sf =
          (plate_velocity / (365.25 * 24 * 3600 * 100)) * (crustal_thickness * 1000)
            / (elastic_thickness * 1000) \<and>
        shear_stress sf = 0.25 * maximum_stress sf \<and>
        normal_stress_x sf = normal_stress_y sf \<and>
        normal_stress_x sf = 0.75 * maximum_stress sf)"
proof
  show "\<exists>sf. calculate_stress_distribution plate_velocity crustal_thickness elastic_thickness
             (Some poissons_ratio) = Inr sf \<and>
        maximum_stress sf =
          (plate_velocity / (365.25 * 24 * 3600 * 100)) * (crustal_thickness * 1000)
            / (elastic_thickness * 1000) \<and>
        shear_stress sf = poissons_ratio * maximum_stress sf \<and>
        normal_stress_x sf = normal_stress_y sf \<and>
        normal_stress_x sf = (1 - poissons_ratio) * maximum_stress sf"
    unfolding calculate_stress_distribution_eq [OF assms] by simp
  show "\<exists>sf. calculate_stress_distribution plate_velocity crustal_thickness elastic_thickness
             None = Inr sf \<and>
        maximum_stress sf =
          (plate_velocity / (365.25 * 24 * 3600 * 100)) * (crustal_thickness * 1000)
            / (elastic_thickness * 1000) \<and>
        shear_stress sf = 0.25 * maximum_stress sf \<and>
        normal_stress_x sf = normal_stress_y sf \<and>
        normal_stress_x sf = 0.75 * maximum_stress sf"
    unfolding calculate_stress_distribution_eq [OF assms] by simp
qed

text \<open>The scenario of velocity 5 cm/year, crust 7 km and elastic thickness 50 km.\<close>

theorem stress_distribution_formula_witness:
  "(50::real) \<noteq> 0 \<and>
   (\<exists>sf. calculate_stress_distribution 5 7 50 None = Inr sf \<and>
        maximum_stress sf = (5 / (365.25 * 24 * 3600 * 100)) * (7 * 1000) / (50 * 1000) \<and>
        shear_stress sf = 0.25 * maximum_stress sf \<and>
        normal_stress_x sf = normal_stress_y sf \<and>
        normal_stress_x sf = 0.75 * maximum_stress sf)"
proof -
  have h: "(50::real) \<noteq> 0" by simp
  have c: "\<exists>sf. calculate_stress_distribution 5 7 50 None = Inr sf \<and>
        maximum_stress sf = (5 / (365.25 * 24 * 3600 * 100)) * (7 * 1000) / (50 * 1000) \<and>
        shear_stress sf = 0.25 * maximum_stress sf \<and>
        normal_stress_x sf = normal_stress_y sf \<and>
        normal_stress_x sf = 0.75 * maximum_stress sf"
    using stress_distribution_formula [OF h, of 5 7 "0.25"] by (rule conjunct2)
  from h c show ?thesis
    by (intro conjI)
qed

section \<open>Properties of the simulation\<close>

text \<open>
  Claim C9. The result of \<open>simulate_canyon_formation\<close> does not depend on the state in
  which the global generator is found: the noise is drawn after the generator has been
  reseeded with 42, so two calls with the same stress field, seismic activity and number of
  steps return the same result (the same error, or the same formation probability, canyon
  depth, peak and final depth), whatever was drawn before either call.
\<close>

theorem simulate_deterministic:
  "fst (simulate_canyon_formation ops field seismic_activity steps_arg g1) =
   fst (simulate_canyon_formation ops field seismic_activity steps_arg g2) \<and>
   fst (simulate_canyon_formation ops field seismic_activity steps_arg g1) =
   fst (simulate_canyon_formation ops field seismic_activity steps_arg (rng_seed ops 42))"
  unfolding simulate_canyon_formation_def Let_def
  by (simp split: sum.split prod.split)

lemma normal_draws_length: "length (fst (normal_draws ops loc scale n g)) = n"
proof (induction n arbitrary: g)
  case 0
  show ?case by simp
next
  case (Suc n)
  obtain x g1 where a: "rng_normal ops loc scale g = (x, g1)"
    by (cases "rng_normal ops loc scale g")
  obtain xs g2 where b: "normal_draws ops loc scale n g1 = (xs, g2)"
    by (cases "normal_draws ops loc scale n g1")
  from Suc.IH [of g1] b have "length xs = n" by simp
  with a b show ?case by simp
qed

lemma np_random_normal_cases:
  "(count < 0 \<and> np_random_normal ops loc scale count g = (Inl ValueError, g)) \<or>
   (0 \<le> count \<and> (\<exists>xs g1. np_random_normal ops loc scale count g = (Inr xs, g1) \<and>
                          length xs = nat count))"
proof (cases "count < 0")
  case True
  then show ?thesis by (simp add: np_random_normal_def)
next
  case False
  obtain xs g1 where d: "normal_draws ops loc scale (nat count) g = (xs, g1)"
    by (cases "normal_draws ops loc scale (nat count) g")
  have "length xs = nat count"
    using normal_draws_length [of ops loc scale "nat count" g] d by simp
  with False d show ?thesis by (simp add: np_random_normal_def)
qed

lemma minmax_normalize_cases:
  "(v = [] \<and> minmax_normalize v = Inl ValueError) \<or>
   (v \<noteq> [] \<and> (\<exists>sn. minmax_normalize v = Inr sn \<and> length sn = length v))"
  by (cases "v = []") (simp_all add: minmax_normalize_empty minmax_normalize_eq)

lemma broadcast_add_error: "broadcast_add xs ys = Inl e \<Longrightarrow> e = ValueError"
  by (auto simp: broadcast_add_def split: if_splits)

lemma broadcast_add_length:
  assumes "broadcast_add xs ys = Inr zs" and "xs \<noteq> []"
  shows "length ys \<le> length zs" and "zs \<noteq> [] \<Longrightarrow> ys \<noteq> []"
proof -
  have c: "(length xs = length ys \<and> zs = map2 f_add xs ys) \<or>
           (length xs \<noteq> length ys \<and> length xs = 1 \<and> zs = map (\<lambda>y. f_add (xs ! 0) y) ys) \<or>
           (length xs \<noteq> length ys \<and> length xs \<noteq> 1 \<and> length ys = 1
              \<and> zs = map (\<lambda>x. f_add x (ys ! 0)) xs)"
    using assms(1) by (auto simp: broadcast_add_def split: if_splits)
  have pos: "1 \<le> length xs" using assms(2) by (cases xs) simp_all
  from c pos show "length ys \<le> length zs" by auto
  from c show "ys \<noteq> []" if "zs \<noteq> []" using that assms(2) by auto
qed

lemma np_max_f_cases:
  "(xs = [] \<and> np_max_f xs = Inl ValueError) \<or> (xs \<noteq> [] \<and> (\<exists>m. np_max_f xs = Inr m))"
  by (cases xs) simp_all

lemma depth_loop_returns:
  assumes "length cd = n" and "n \<le> length fp" and "1 \<le> k"
  shows "\<exists>cd'. depth_loop fp [k..<n] cd = Inr cd' \<and> length cd' = n"
  using assms
proof (induction "n - k" arbitrary: k cd)
  case 0
  then show ?case by simp
next
  case (Suc m)
  then have kn: "k < n" by linarith
  let ?v = "py_min
             (f_add (cd ! (k - 1))
                (f_mul (f_mul (fp ! k) (f_sub (Fin 1) (f_div (cd ! (k - 1)) (Fin 1000))))
                   (Fin 0.1)))
             (Fin 1000)"
  have m: "m = n - Suc k" using Suc.hyps(2) by linarith
  have len: "length (cd[k := ?v]) = n" using Suc.prems(1) by simp
  have "1 \<le> Suc k" by simp
  from Suc.hyps(1) [OF m len Suc.prems(2) this]
  obtain cd' where cd': "depth_loop fp [Suc k..<n] (cd[k := ?v]) = Inr cd'" "length cd' = n"
    by blast
  have "depth_loop fp [k..<n] cd = depth_loop fp [Suc k..<n] (cd[k := ?v])"
    using kn Suc.prems by (simp add: upt_conv_Cons arr_get_def)
  with cd' show ?case by simp
qed

lemma depth_step:
  fixes d p :: real
  assumes "0 \<le> d" and "d \<le> 1000" and "0 \<le> p" and "p \<le> 1"
  shows "\<exists>x. py_min
             (f_add (Fin d)
                (f_mul (f_mul (Fin p) (f_sub (Fin 1) (f_div (Fin d) (Fin 1000)))) (Fin 0.1)))
             (Fin 1000) = Fin x \<and> d \<le> x \<and> x \<le> 1000"
proof -
  let ?g = "p * (1 - d / 1000) * (1 / 10)"
  have g: "0 \<le> ?g"
    using assms by (intro mult_nonneg_nonneg) simp_all
  have eq: "py_min
             (f_add (Fin d)
                (f_mul (f_mul (Fin p) (f_sub (Fin 1) (f_div (Fin d) (Fin 1000)))) (Fin 0.1)))
             (Fin 1000) = Fin (if 1000 < d + ?g then 1000 else d + ?g)"
    by (simp add: py_min_def f_sub_def)
  have "d \<le> (if 1000 < d + ?g then 1000 else d + ?g)"
    using g assms(2) by simp
  moreover have "(if 1000 < d + ?g then 1000 else d + ?g) \<le> 1000"
    by simp
  ultimately show ?thesis using eq by blast
qed


lemma depth_loop_invariant:
  assumes "length cd = n" and "n \<le> length fp" and "1 \<le> k"
    and "\<forall>j<n. \<exists>p. fp ! j = Fin p \<and> 0 \<le> p \<and> p \<le> 1"
    and "\<forall>j<n. \<exists>x. cd ! j = Fin x \<and> 0 \<le> x \<and> x \<le> 1000"
    and "\<forall>j. Suc j < k \<longrightarrow> Suc j < n \<longrightarrow> f_ge (cd ! Suc j) (cd ! j)"
    and "0 < n \<longrightarrow> cd ! 0 = Fin 0"
  shows "\<exists>cd'. depth_loop fp [k..<n] cd = Inr cd' \<and> length cd' = n \<and>
           (0 < n \<longrightarrow> cd' ! 0 = Fin 0) \<and>
           (\<forall>j<n. \<exists>x. cd' ! j = Fin x \<and> 0 \<le> x \<and> x \<le> 1000) \<and>
           (\<forall>j. Suc j < n \<longrightarrow> f_ge (cd' ! Suc j) (cd' ! j))"
  using assms
proof (induction "n - k" arbitrary: k cd)
  case 0
  then have "n \<le> k" by simp
  with "0.prems" show ?case by simp
next
  case (Suc m)
  then have kn: "k < n" by linarith
  have k1: "k - 1 < n" using kn by simp
  from Suc.prems(5) k1 obtain d where d: "cd ! (k - 1) = Fin d" "0 \<le> d" "d \<le> 1000"
    by blast
  from Suc.prems(4) kn obtain p where p: "fp ! k = Fin p" "0 \<le> p" "p \<le> 1"
    by blast
  from depth_step [OF d(2,3) p(2,3)] obtain x where
    x: "py_min
             (f_add (Fin d)
                (f_mul (f_mul (Fin p) (f_sub (Fin 1) (f_div (Fin d) (Fin 1000)))) (Fin 0.1)))
             (Fin 1000) = Fin x" "d \<le> x" "x \<le> 1000"
    by blast
  let ?cd = "cd[k := Fin x]"
  have unfold: "depth_loop fp [k..<n] cd = depth_loop fp [Suc k..<n] ?cd"
    using kn Suc.prems(1,2,3) d(1) p(1) x(1) by (simp add: upt_conv_Cons arr_get_def)
  have m: "m = n - Suc k" using Suc.hyps(2) by linarith
  have len: "length ?cd = n" using Suc.prems(1) by simp
  have range: "\<forall>j<n. \<exists>y. ?cd ! j = Fin y \<and> 0 \<le> y \<and> y \<le> 1000"
  proof (intro allI impI)
    fix j assume j: "j < n"
    show "\<exists>y. ?cd ! j = Fin y \<and> 0 \<le> y \<and> y \<le> 1000"
    proof (cases "j = k")
      case True
      then have "?cd ! j = Fin x" using kn Suc.prems(1) by simp
      moreover have "0 \<le> x" using d(2) x(2) by linarith
      ultimately show ?thesis using x(3) by blast
    next
      case False
      then have "?cd ! j = cd ! j" by simp
      with Suc.prems(5) j show ?thesis by simp
    qed
  qed
  have mono: "\<forall>j. Suc j < Suc k \<longrightarrow> Suc j < n \<longrightarrow> f_ge (?cd ! Suc j) (?cd ! j)"
  proof (intro allI impI)
    fix j assume j: "Suc j < Suc k" "Suc j < n"
    show "f_ge (?cd ! Suc j) (?cd ! j)"
    proof (cases "Suc j = k")
      case True
      then have a: "?cd ! Suc j = Fin x" using kn Suc.prems(1) by simp
      have "j = k - 1" using True by simp
      then have b: "?cd ! j = Fin d" using True d(1) by simp
      show ?thesis unfolding a b using x(2) by simp
    next
      case False
      then have lt: "Suc j < k" using j(1) by linarith
      then have "?cd ! Suc j = cd ! Suc j" "?cd ! j = cd ! j" by simp_all
      with Suc.prems(6) lt j(2) show ?thesis by simp
    qed
  qed
  have zero: "0 < n \<longrightarrow> ?cd ! 0 = Fin 0"
    using Suc.prems(3,7) by simp
  have "1 \<le> Suc k" by simp
  from Suc.hyps(1) [OF m len Suc.prems(2) this Suc.prems(4) range mono zero] unfold
  show ?case by simp
qed


lemma simulate_success:
  fixes field :: stress_field
  defines "base \<equiv> (\<lambda>sn. map (\<lambda>s. f_mul
                          (f_mul (f_div (Fin (maximum_stress field))
                                        (Fin (max (maximum_stress field) (1 / 10 ^ 10))))
                                 (f_add s (Fin 0.1)))
                          (f_div (Fin (strain_rate field))
                                 (Fin (max (strain_rate field) (1 / 10 ^ 15)))))
                   sn)"
  assumes "(case steps_arg of None \<Rightarrow> 100 | Some t \<Rightarrow> t) = steps"
    and "minmax_normalize seismic_activity = Inr sn"
    and "np_random_normal ops 0 0.1 steps (rng_seed ops 42) = (Inr noise, g1)"
    and "broadcast_add (base sn) (map Fin noise) = Inr noised"
    and "depth_loop (map (np_clip 0 1) noised) [1..<nat steps] (replicate (nat steps) (Fin 0))
           = Inr depths"
    and "np_max_f (map (np_clip 0 1) noised) = Inr peak"
    and "arr_last depths = Inr final"
  shows "simulate_canyon_formation ops field seismic_activity steps_arg g =
    (Inr \<lparr>time_steps = map int [0..<nat steps],
          formation_probability = map (np_clip 0 1) noised,
          canyon_depth = depths,
          peak_formation_probability = peak,
          final_depth = final\<rparr>, g1)"
  unfolding simulate_canyon_formation_def Let_def assms(2) assms(3) sum.case
    assms(4) prod.case assms(5) [unfolded base_def] assms(6) assms(7) assms(8)
  by (rule refl)

lemma base_finite:
  fixes a b :: real
  assumes "\<forall>s \<in> set sn. \<exists>y. s = Fin y"
  shows "\<forall>s \<in> set (map (\<lambda>s. f_mul
                          (f_mul (f_div (Fin a) (Fin (max a (1 / 10 ^ 10))))
                                 (f_add s (Fin 0.1)))
                          (f_div (Fin b) (Fin (max b (1 / 10 ^ 15)))))
                   sn). \<exists>y. s = Fin y"
proof -
  have a: "max a (1 / 10 ^ 10) \<noteq> 0"
  proof -
    have "(0::real) < 1 / 10 ^ 10" by simp
    then have "0 < max a (1 / 10 ^ 10)" by (rule less_max_iff_disj [THEN iffD2, OF disjI2])
    then show ?thesis by simp
  qed
  have b: "max b (1 / 10 ^ 15) \<noteq> 0"
  proof -
    have "(0::real) < 1 / 10 ^ 15" by simp
    then have "0 < max b (1 / 10 ^ 15)" by (rule less_max_iff_disj [THEN iffD2, OF disjI2])
    then show ?thesis by simp
  qed
  have fa: "f_div (Fin a) (Fin (max a (1 / 10 ^ 10))) = Fin (a / max a (1 / 10 ^ 10))"
    using a by (simp only: f_div.simps if_False)
  have fb: "f_div (Fin b) (Fin (max b (1 / 10 ^ 15))) = Fin (b / max b (1 / 10 ^ 15))"
    using b by (simp only: f_div.simps if_False)
  show ?thesis
    unfolding fa fb using assms by auto
qed

lemma normalized_finite:
  assumes "Max (set v) \<noteq> Min (set v)"
  shows "\<forall>s \<in> set (map (\<lambda>x. f_div (Fin (x - Min (set v))) (Fin (Max (set v) - Min (set v)))) v).
           \<exists>y. s = Fin y"
  using assms by simp

lemma clip_unit: "np_clip 0 1 s \<noteq> NaN \<Longrightarrow> \<exists>x. np_clip 0 1 s = Fin x \<and> 0 \<le> x \<and> x \<le> 1"
  by (cases s) simp_all


text \<open>
  Claim C7. When the seismic activity is non-constant and has as many entries as there
  are time steps, the simulation returns; every formation probability is a finite number
  between 0 and 1; the canyon depth starts at 0, never decreases from one step to the next,
  and every depth is a finite number between 0 and 1000.
\<close>

theorem simulate_depth_monotone_bounded:
  assumes "seismic_activity \<noteq> []"
    and "Max (set seismic_activity) \<noteq> Min (set seismic_activity)"
    and "(case steps_arg of None \<Rightarrow> 100 | Some t \<Rightarrow> t) = int (length seismic_activity)"
  shows "\<exists>r. fst (simulate_canyon_formation ops field seismic_activity steps_arg g) = Inr r \<and>
     length (formation_probability r) = length seismic_activity \<and>
     length (canyon_depth r) = length seismic_activity \<and>
     canyon_depth r ! 0 = Fin 0 \<and>
     (\<forall>p \<in> set (formation_probability r). \<exists>x. p = Fin x \<and> 0 \<le> x \<and> x \<le> 1) \<and>
     (\<forall>j. Suc j < length (canyon_depth r) \<longrightarrow>
          f_ge (canyon_depth r ! Suc j) (canyon_depth r ! j)) \<and>
     (\<forall>d \<in> set (canyon_depth r). \<exists>x. d = Fin x \<and> 0 \<le> x \<and> x \<le> 1000)"
proof -
  let ?n = "length seismic_activity"
  let ?sn = "map (\<lambda>x. f_div (Fin (x - Min (set seismic_activity)))
                        (Fin (Max (set seismic_activity) - Min (set seismic_activity))))
               seismic_activity"
  let ?base = "map (\<lambda>s. f_mul
                          (f_mul (f_div (Fin (maximum_stress field))
                                        (Fin (max (maximum_stress field) (1 / 10 ^ 10))))
                                 (f_add s (Fin 0.1)))
                          (f_div (Fin (strain_rate field))
                                 (Fin (max (strain_rate field) (1 / 10 ^ 15)))))
                   ?sn"
  have n: "0 < ?n" using assms(1) by simp
  have mm: "minmax_normalize seismic_activity = Inr ?sn"
    by (rule minmax_normalize_eq [OF assms(1)])
  have bfin: "\<forall>s \<in> set ?base. \<exists>y. s = Fin y"
    by (rule base_finite [OF normalized_finite [OF assms(2)]])
  have blen: "length ?base = ?n" by simp
  from np_random_normal_cases [of "int ?n" ops 0 "0.1" "rng_seed ops 42"]
  obtain noise g1 where
    rn: "np_random_normal ops 0 0.1 (int ?n) (rng_seed ops 42) = (Inr noise, g1)"
    and nlen: "length noise = ?n"
    by auto
  let ?noised = "map2 f_add ?base (map Fin noise)"
  let ?prob = "map (np_clip 0 1) ?noised"
  have ba: "broadcast_add ?base (map Fin noise) = Inr ?noised"
    unfolding broadcast_add_def using nlen by simp
  have plen: "length ?prob = ?n" using nlen by simp
  have pfin: "\<exists>x. ?prob ! j = Fin x \<and> 0 \<le> x \<and> x \<le> 1" if "j < ?n" for j
  proof -
    from bfin that obtain y where y: "?base ! j = Fin y"
      using blen nth_mem by metis
    have "?noised ! j = f_add (?base ! j) (Fin (noise ! j))"
      using that nlen by simp
    then have "?noised ! j = Fin (y + noise ! j)"
      unfolding y by simp
    moreover have "?prob ! j = np_clip 0 1 (?noised ! j)"
      using that nlen by simp
    ultimately have "?prob ! j = np_clip 0 1 (Fin (y + noise ! j))" by simp
    then show ?thesis by simp
  qed
  have pall: "\<forall>j<?n. \<exists>p. ?prob ! j = Fin p \<and> 0 \<le> p \<and> p \<le> 1"
    using pfin by blast
  have c0: "length (replicate ?n (Fin 0)) = ?n" by simp
  have c1: "?n \<le> length ?prob" using plen by simp
  have c2: "\<forall>j<?n. \<exists>x. replicate ?n (Fin 0) ! j = Fin x \<and> 0 \<le> x \<and> x \<le> 1000"
    by simp
  have c3: "\<forall>j. Suc j < 1 \<longrightarrow> Suc j < ?n \<longrightarrow>
              f_ge (replicate ?n (Fin 0) ! Suc j) (replicate ?n (Fin 0) ! j)"
    by simp
  have c4: "0 < ?n \<longrightarrow> replicate ?n (Fin 0) ! 0 = Fin 0" by simp
  from depth_loop_invariant [OF c0 c1 order_refl pall c2 c3 c4]
  obtain depths where
    dl: "depth_loop ?prob [1..<?n] (replicate ?n (Fin 0)) = Inr depths"
    and dlen: "length depths = ?n"
    and d0: "depths ! 0 = Fin 0"
    and drange: "\<forall>j<?n. \<exists>x. depths ! j = Fin x \<and> 0 \<le> x \<and> x \<le> 1000"
    and dmono: "\<forall>j. Suc j < ?n \<longrightarrow> f_ge (depths ! Suc j) (depths ! j)"
    using n by auto
  have "?prob \<noteq> []" using plen n by auto
  with np_max_f_cases [of ?prob] obtain peak where pk: "np_max_f ?prob = Inr peak"
    by auto
  have "depths \<noteq> []" using dlen n by auto
  then have al: "arr_last depths = Inr (last depths)"
    by (simp add: arr_last_def)
  have dl': "depth_loop ?prob [1..<nat (int ?n)] (replicate (nat (int ?n)) (Fin 0)) = Inr depths"
    using dl by simp
  let ?r = "\<lparr>time_steps = map int [0..<nat (int ?n)],
          formation_probability = ?prob,
          canyon_depth = depths,
          peak_formation_probability = peak,
          final_depth = last depths\<rparr>"
  have res: "fst (simulate_canyon_formation ops field seismic_activity steps_arg g) = Inr ?r"
    unfolding simulate_success [OF assms(3) mm rn ba dl' pk al] by simp
  have q1: "\<forall>p \<in> set ?prob. \<exists>x. p = Fin x \<and> 0 \<le> x \<and> x \<le> 1"
    unfolding all_set_conv_all_nth plen using pfin by blast
  have q2: "\<forall>d \<in> set depths. \<exists>x. d = Fin x \<and> 0 \<le> x \<and> x \<le> 1000"
    unfolding all_set_conv_all_nth dlen using drange by blast
  have final: "fst (simulate_canyon_formation ops field seismic_activity steps_arg g) = Inr ?r \<and>
     length (formation_probability ?r) = ?n \<and>
     length (canyon_depth ?r) = ?n \<and>
     canyon_depth ?r ! 0 = Fin 0 \<and>
     (\<forall>p \<in> set (formation_probability ?r). \<exists>x. p = Fin x \<and> 0 \<le> x \<and> x \<le> 1) \<and>
     (\<forall>j. Suc j < length (canyon_depth ?r) \<longrightarrow>
          f_ge (canyon_depth ?r ! Suc j) (canyon_depth ?r ! j)) \<and>
     (\<forall>d \<in> set (canyon_depth ?r). \<exists>x. d = Fin x \<and> 0 \<le> x \<and> x \<le> 1000)"
    using res plen dlen d0 q1 q2 dmono
    by (simp only: simulation_results.simps)
  show ?thesis by (rule exI [of _ ?r]) (rule final)
qed


lemma simulate_failure:
  fixes field :: stress_field
  defines "base \<equiv> (\<lambda>sn. map (\<lambda>s. f_mul
                          (f_mul (f_div (Fin (maximum_stress field))
                                        (Fin (max (maximum_stress field) (1 / 10 ^ 10))))
                                 (f_add s (Fin 0.1)))
                          (f_div (Fin (strain_rate field))
                                 (Fin (max (strain_rate field) (1 / 10 ^ 15)))))
                   sn)"
  assumes st: "(case steps_arg of None \<Rightarrow> 100 | Some t \<Rightarrow> t) = steps"
  shows "minmax_normalize seismic_activity = Inl e \<Longrightarrow>
      simulate_canyon_formation ops field seismic_activity steps_arg g = (Inl e, g)"
    and "minmax_normalize seismic_activity = Inr sn \<Longrightarrow>
      np_random_normal ops 0 0.1 steps (rng_seed ops 42) = (Inl e, g1) \<Longrightarrow>
      simulate_canyon_formation ops field seismic_activity steps_arg g = (Inl e, g1)"
    and "minmax_normalize seismic_activity = Inr sn \<Longrightarrow>
      np_random_normal ops 0 0.1 steps (rng_seed ops 42) = (Inr noise, g1) \<Longrightarrow>
      broadcast_add (base sn) (map Fin noise) = Inl e \<Longrightarrow>
      simulate_canyon_formation ops field seismic_activity steps_arg g = (Inl e, g1)"
    and "minmax_normalize seismic_activity = Inr sn \<Longrightarrow>
      np_random_normal ops 0 0.1 steps (rng_seed ops 42) = (Inr noise, g1) \<Longrightarrow>
      broadcast_add (base sn) (map Fin noise) = Inr noised \<Longrightarrow>
      depth_loop (map (np_clip 0 1) noised) [1..<nat steps] (replicate (nat steps) (Fin 0))
           = Inr depths \<Longrightarrow>
      np_max_f (map (np_clip 0 1) noised) = Inl e \<Longrightarrow>
      simulate_canyon_formation ops field seismic_activity steps_arg g = (Inl e, g1)"
proof -
  show "simulate_canyon_formation ops field seismic_activity steps_arg g = (Inl e, g)"
    if "minmax_normalize seismic_activity = Inl e"
    unfolding simulate_canyon_formation_def Let_def that sum.case by (rule refl)
  show "simulate_canyon_formation ops field seismic_activity steps_arg g = (Inl e, g1)"
    if "minmax_normalize seismic_activity = Inr sn"
      and "np_random_normal ops 0 0.1 steps (rng_seed ops 42) = (Inl e, g1)"
    unfolding simulate_canyon_formation_def Let_def st that sum.case prod.case by (rule refl)
  show "simulate_canyon_formation ops field seismic_activity steps_arg g = (Inl e, g1)"
    if "minmax_normalize seismic_activity = Inr sn"
      and "np_random_normal ops 0 0.1 steps (rng_seed ops 42) = (Inr noise, g1)"
      and "broadcast_add (base sn) (map Fin noise) = Inl e"
    unfolding simulate_canyon_formation_def Let_def st that(1) that(2) sum.case prod.case
      that(3) [unfolded base_def]
    by (rule refl)
  show "simulate_canyon_formation ops field seismic_activity steps_arg g = (Inl e, g1)"
    if "minmax_normalize seismic_activity = Inr sn"
      and "np_random_normal ops 0 0.1 steps (rng_seed ops 42) = (Inr noise, g1)"
      and "broadcast_add (base sn) (map Fin noise) = Inr noised"
      and "depth_loop (map (np_clip 0 1) noised) [1..<nat steps] (replicate (nat steps) (Fin 0))
           = Inr depths"
      and "np_max_f (map (np_clip 0 1) noised) = Inl e"
    unfolding simulate_canyon_formation_def Let_def st that(1) that(2) sum.case prod.case
      that(3) [unfolded base_def] that(4) that(5)
    by (rule refl)
qed

lemma np_max_f_error: "np_max_f xs = Inl e \<Longrightarrow> e = ValueError"
  by (cases xs) simp_all

lemma simulate_no_index_error:
  "fst (simulate_canyon_formation ops field seismic_activity steps_arg g) \<noteq> Inl IndexError"
proof -
  let ?steps = "case steps_arg of None \<Rightarrow> 100 | Some t \<Rightarrow> t"
  have st: "?steps = ?steps" by (rule refl)
  let ?base = "\<lambda>sn. map (\<lambda>s. f_mul
                          (f_mul (f_div (Fin (maximum_stress field))
                                        (Fin (max (maximum_stress field) (1 / 10 ^ 10))))
                                 (f_add s (Fin 0.1)))
                          (f_div (Fin (strain_rate field))
                                 (Fin (max (strain_rate field) (1 / 10 ^ 15)))))
                   sn"
  show ?thesis
  proof (cases "seismic_activity = []")
    case True
    then have "minmax_normalize seismic_activity = Inl ValueError"
      by (simp add: minmax_normalize_empty)
    then show ?thesis by (simp add: simulate_failure(1) [OF st])
  next
    case False
    with minmax_normalize_cases [of seismic_activity] obtain sn where
      mm: "minmax_normalize seismic_activity = Inr sn" and snlen: "length sn = length seismic_activity"
      by auto
    have bne: "?base sn \<noteq> []" using False snlen by auto
    show ?thesis
    proof (cases "?steps < 0")
      case True
      then have "np_random_normal ops 0 0.1 ?steps (rng_seed ops 42) = (Inl ValueError, rng_seed ops 42)"
        by (simp add: np_random_normal_def)
      then show ?thesis by (simp add: simulate_failure(2) [OF st mm])
    next
      case nonneg: False
      with np_random_normal_cases [of ?steps ops 0 "0.1" "rng_seed ops 42"]
      obtain noise g1 where
        rn: "np_random_normal ops 0 0.1 ?steps (rng_seed ops 42) = (Inr noise, g1)"
        and nlen: "length noise = nat ?steps"
        by auto
      show ?thesis
      proof (cases "broadcast_add (?base sn) (map Fin noise)")
        case (Inl e)
        then have "e = ValueError" by (rule broadcast_add_error)
        then show ?thesis by (simp add: simulate_failure(3) [OF st mm rn Inl])
      next
        case (Inr noised)
        have le: "nat ?steps \<le> length (map (np_clip 0 1) noised)"
          using broadcast_add_length(1) [OF Inr bne] nlen by simp
        have "length (replicate (nat ?steps) (Fin 0 :: float64)) = nat ?steps" by simp
        from depth_loop_returns [OF this le order_refl] obtain depths where
          dl: "depth_loop (map (np_clip 0 1) noised) [1..<nat ?steps]
                 (replicate (nat ?steps) (Fin 0)) = Inr depths"
          and dlen: "length depths = nat ?steps"
          by blast
        show ?thesis
        proof (cases "np_max_f (map (np_clip 0 1) noised)")
          case pk: (Inl e)
          then have "e = ValueError" by (rule np_max_f_error)
          then show ?thesis by (simp add: simulate_failure(4) [OF st mm rn Inr dl pk])
        next
          case pk: (Inr peak)
          then have "noised \<noteq> []" by auto
          from broadcast_add_length(2) [OF Inr bne this] have "noise \<noteq> []" by simp
          with nlen dlen have "depths \<noteq> []" by auto
          then have al: "arr_last depths = Inr (last depths)" by (simp add: arr_last_def)
          show ?thesis
            unfolding simulate_success [OF st mm rn Inr dl pk al] by simp
        qed
      qed
    qed
  qed
qed


lemma broadcast_add_mismatch:
  "length xs \<noteq> length ys \<Longrightarrow> length xs \<noteq> 1 \<Longrightarrow> length ys \<noteq> 1 \<Longrightarrow>
   broadcast_add xs ys = Inl ValueError"
  by (simp add: broadcast_add_def)

lemma broadcast_add_single:
  "length xs = 1 \<Longrightarrow> \<exists>zs. broadcast_add xs ys = Inr zs \<and> length zs = length ys"
  by (simp add: broadcast_add_def)

lemma simulate_shape_mismatch:
  assumes st: "(case steps_arg of None \<Rightarrow> 100 | Some t \<Rightarrow> t) = steps"
    and "2 \<le> length seismic_activity" and "0 \<le> steps" and "steps \<noteq> 1"
    and "steps \<noteq> int (length seismic_activity)"
  shows "fst (simulate_canyon_formation ops field seismic_activity steps_arg g) = Inl ValueError"
proof -
  let ?base = "\<lambda>sn. map (\<lambda>s. f_mul
                          (f_mul (f_div (Fin (maximum_stress field))
                                        (Fin (max (maximum_stress field) (1 / 10 ^ 10))))
                                 (f_add s (Fin 0.1)))
                          (f_div (Fin (strain_rate field))
                                 (Fin (max (strain_rate field) (1 / 10 ^ 15)))))
                   sn"
  have ne: "seismic_activity \<noteq> []" using assms(2) by auto
  with minmax_normalize_cases [of seismic_activity] obtain sn where
    mm: "minmax_normalize seismic_activity = Inr sn" and snlen: "length sn = length seismic_activity"
    by auto
  from np_random_normal_cases [of steps ops 0 "0.1" "rng_seed ops 42"] assms(3)
  obtain noise g1 where
    rn: "np_random_normal ops 0 0.1 steps (rng_seed ops 42) = (Inr noise, g1)"
    and nlen: "length noise = nat steps"
    by auto
  have l1: "length (?base sn) \<noteq> length (map Fin noise)"
    using snlen nlen assms(3,5) by auto
  have l2: "length (?base sn) \<noteq> 1" using snlen assms(2) by auto
  have l3: "length (map Fin noise) \<noteq> 1" using nlen assms(3,4) by auto
  have "broadcast_add (?base sn) (map Fin noise) = Inl ValueError"
    by (rule broadcast_add_mismatch [OF l1 l2 l3])
  then show ?thesis by (simp add: simulate_failure(3) [OF st mm rn])
qed

lemma simulate_single_broadcast:
  assumes st: "(case steps_arg of None \<Rightarrow> 100 | Some t \<Rightarrow> t) = steps"
    and "length seismic_activity = 1" and "1 \<le> steps"
  shows "\<exists>r. fst (simulate_canyon_formation ops field seismic_activity steps_arg g) = Inr r \<and>
     length (formation_probability r) = nat steps \<and> length (canyon_depth r) = nat steps"
proof -
  let ?base = "\<lambda>sn. map (\<lambda>s. f_mul
                          (f_mul (f_div (Fin (maximum_stress field))
                                        (Fin (max (maximum_stress field) (1 / 10 ^ 10))))
                                 (f_add s (Fin 0.1)))
                          (f_div (Fin (strain_rate field))
                                 (Fin (max (strain_rate field) (1 / 10 ^ 15)))))
                   sn"
  have ne: "seismic_activity \<noteq> []" using assms(2) by auto
  with minmax_normalize_cases [of seismic_activity] obtain sn where
    mm: "minmax_normalize seismic_activity = Inr sn" and snlen: "length sn = length seismic_activity"
    by auto
  from np_random_normal_cases [of steps ops 0 "0.1" "rng_seed ops 42"] assms(3)
  obtain noise g1 where
    rn: "np_random_normal ops 0 0.1 steps (rng_seed ops 42) = (Inr noise, g1)"
    and nlen: "length noise = nat steps"
    by auto
  have bl: "length (?base sn) = 1" using snlen assms(2) by simp
  from broadcast_add_single [OF bl, of "map Fin noise"] nlen
  obtain noised where ba: "broadcast_add (?base sn) (map Fin noise) = Inr noised"
    and zl: "length noised = nat steps"
    by auto
  have pos: "0 < nat steps" using assms(3) by simp
  have le: "nat steps \<le> length (map (np_clip 0 1) noised)" using zl by simp
  have "length (replicate (nat steps) (Fin 0 :: float64)) = nat steps" by simp
  from depth_loop_returns [OF this le order_refl] obtain depths where
    dl: "depth_loop (map (np_clip 0 1) noised) [1..<nat steps]
           (replicate (nat steps) (Fin 0)) = Inr depths"
    and dlen: "length depths = nat steps"
    by blast
  have "map (np_clip 0 1) noised \<noteq> []" using zl pos by auto
  with np_max_f_cases [of "map (np_clip 0 1) noised"] obtain peak where
    pk: "np_max_f (map (np_clip 0 1) noised) = Inr peak"
    by auto
  have "depths \<noteq> []" using dlen pos by auto
  then have al: "arr_last depths = Inr (last depths)" by (simp add: arr_last_def)
  let ?r = "\<lparr>time_steps = map int [0..<nat steps],
          formation_probability = map (np_clip 0 1) noised,
          canyon_depth = depths,
          peak_formation_probability = peak,
          final_depth = last depths\<rparr>"
  have final: "fst (simulate_canyon_formation ops field seismic_activity steps_arg g) = Inr ?r \<and>
     length (formation_probability ?r) = nat steps \<and> length (canyon_depth ?r) = nat steps"
    unfolding simulate_success [OF st mm rn ba dl pk al] using zl dlen by simp
  show ?thesis by (rule exI [of _ ?r]) (rule final)
qed

text \<open>
  Claim C8, as the code has it. The depth loop never reads the formation probability out
  of range: no call of \<open>simulate_canyon_formation\<close> ends in \<open>IndexError\<close>. When the
  number of steps exceeds the length of a seismic activity of two or more entries, the
  call fails earlier, with the \<open>ValueError\<close> of adding the noise of \<open>time_steps\<close>
  entries to a base sequence of another length, before the loop is reached. When the
  seismic activity has one entry, that entry is broadcast to the number of steps and the
  call returns sequences with one entry per step.
\<close>

theorem simulate_length_mismatch:
  assumes "(case steps_arg of None \<Rightarrow> 100 | Some t \<Rightarrow> t) = steps"
  shows "fst (simulate_canyon_formation ops field seismic_activity steps_arg g) \<noteq> Inl IndexError \<and>
    (2 \<le> length seismic_activity \<and> int (length seismic_activity) < steps \<longrightarrow>
       fst (simulate_canyon_formation ops field seismic_activity steps_arg g) = Inl ValueError) \<and>
    (length seismic_activity = 1 \<and> 1 \<le> steps \<longrightarrow>
       (\<exists>r. fst (simulate_canyon_formation ops field seismic_activity steps_arg g) = Inr r \<and>
            length (formation_probability r) = nat steps \<and>
            length (canyon_depth r) = nat steps))"
proof (intro conjI impI)
  show "fst (simulate_canyon_formation ops field seismic_activity steps_arg g) \<noteq> Inl IndexError"
    by (rule simulate_no_index_error)
next
  assume a: "2 \<le> length seismic_activity \<and> int (length seismic_activity) < steps"
  then have h: "2 \<le> length seismic_activity" "0 \<le> steps" "steps \<noteq> 1"
    "steps \<noteq> int (length seismic_activity)"
    by linarith+
  show "fst (simulate_canyon_formation ops field seismic_activity steps_arg g) = Inl ValueError"
    by (rule simulate_shape_mismatch [OF assms h])
next
  assume "length seismic_activity = 1 \<and> 1 \<le> steps"
  then have h: "length seismic_activity = 1" "1 \<le> steps"
    by simp_all
  show "\<exists>r. fst (simulate_canyon_formation ops field seismic_activity steps_arg g) = Inr r \<and>
            length (formation_probability r) = nat steps \<and>
            length (canyon_depth r) = nat steps"
    by (rule simulate_single_broadcast [OF assms h])
qed

lemma example_noise:
  "np_random_normal counter_rng 0 0.1 2 (rng_seed counter_rng 42) = (Inr [- (1 / 10), 1 / 15], 12)"
proof -
  have n: "nat 2 = Suc (Suc 0)" by simp
  show ?thesis
    unfolding np_random_normal_def n by (simp add: counter_rng_def)
qed

lemma example_simulation:
  "simulate_canyon_formation counter_rng example_field [0, 1] (Some 2) 7 =
     (Inr \<lparr>time_steps = [0, 1],
           formation_probability = [Fin 0, Fin 1],
           canyon_depth = [Fin 0, Fin (1 / 10)],
           peak_formation_probability = Fin 1,
           final_depth = Fin (1 / 10)\<rparr>, 12)"
proof -
  have n: "nat 2 = Suc (Suc 0)" by simp
  have u: "[1..<Suc (Suc 0)] = [Suc 0]" by simp
  show ?thesis
    unfolding simulate_canyon_formation_def Let_def option.case example_noise n u
    by (simp add: minmax_normalize_def arr_div_scalar_def arr_sub_scalar_def example_field_def
      broadcast_add_def arr_get_def arr_last_def py_min_def f_sub_def)
qed

theorem simulate_depth_monotone_bounded_witness:
  "[0, 1 :: real] \<noteq> [] \<and> Max (set [0, 1 :: real]) \<noteq> Min (set [0, 1 :: real]) \<and>
   (case Some 2 of None \<Rightarrow> 100 | Some t \<Rightarrow> t) = int (length [0, 1 :: real]) \<and>
   (\<exists>r. fst (simulate_canyon_formation counter_rng example_field [0, 1] (Some 2) 7) = Inr r \<and>
     length (formation_probability r) = length [0, 1 :: real] \<and>
     length (canyon_depth r) = length [0, 1 :: real] \<and>
     canyon_depth r ! 0 = Fin 0 \<and>
     (\<forall>p \<in> set (formation_probability r). \<exists>x. p = Fin x \<and> 0 \<le> x \<and> x \<le> 1) \<and>
     (\<forall>j. Suc j < length (canyon_depth r) \<longrightarrow>
          f_ge (canyon_depth r ! Suc j) (canyon_depth r ! j)) \<and>
     (\<forall>d \<in> set (canyon_depth r). \<exists>x. d = Fin x \<and> 0 \<le> x \<and> x \<le> 1000))"
proof -
  have h1: "[0, 1 :: real] \<noteq> []" by simp
  have h2: "Max (set [0, 1 :: real]) \<noteq> Min (set [0, 1 :: real])" by simp
  have h3: "(case Some 2 of None \<Rightarrow> 100 | Some t \<Rightarrow> t) = int (length [0, 1 :: real])" by simp
  from simulate_depth_monotone_bounded [OF h1 h2 h3, of counter_rng example_field 7] h1 h2 h3
  show ?thesis by (intro conjI)
qed

text \<open>
  Three steps on a seismic activity of two entries: the claim expects an out-of-bounds
  read in the depth loop; the call stops at the addition of the noise.
\<close>

theorem simulate_out_of_bounds_counterexample:
  "int (length [0, 1 :: real]) < 3 \<and>
   fst (simulate_canyon_formation counter_rng example_field [0, 1] (Some 3) 7) = Inl ValueError \<and>
   fst (simulate_canyon_formation counter_rng example_field [0, 1] (Some 3) 7) \<noteq> Inl IndexError"
proof -
  have "fst (simulate_canyon_formation counter_rng example_field [0, 1] (Some 3) 7) = Inl ValueError"
    by (rule simulate_shape_mismatch [where steps = 3]) simp_all
  then show ?thesis by simp
qed

theorem simulate_length_mismatch_witness:
  "(case Some 3 of None \<Rightarrow> 100 | Some t \<Rightarrow> t) = (3::int) \<and>
   (2 \<le> length [0, 1 :: real] \<and> int (length [0, 1 :: real]) < 3) \<and>
   fst (simulate_canyon_formation counter_rng example_field [0, 1] (Some 3) 7) \<noteq> Inl IndexError \<and>
   fst (simulate_canyon_formation counter_rng example_field [0, 1] (Some 3) 7) = Inl ValueError \<and>
   (length [5 :: real] = 1 \<and> (1::int) \<le> 3) \<and>
   (\<exists>r. fst (simulate_canyon_formation counter_rng example_field [5] (Some 3) 7) = Inr r \<and>
        length (formation_probability r) = nat 3 \<and> length (canyon_depth r) = nat 3)"
proof -
  have h: "(case Some 3 of None \<Rightarrow> 100 | Some t \<Rightarrow> t) = (3::int)" by simp
  have a: "2 \<le> length [0, 1 :: real] \<and> int (length [0, 1 :: real]) < 3" by simp
  have b: "length [5 :: real] = 1 \<and> (1::int) \<le> 3" by simp
  from simulate_length_mismatch [OF h, of counter_rng example_field "[0, 1]" 7] a
  have c1: "fst (simulate_canyon_formation counter_rng example_field [0, 1] (Some 3) 7) \<noteq> Inl IndexError"
    and c2: "fst (simulate_canyon_formation counter_rng example_field [0, 1] (Some 3) 7) = Inl ValueError"
    by blast+
  from simulate_length_mismatch [OF h, of counter_rng example_field "[5]" 7] b
  have c3: "\<exists>r. fst (simulate_canyon_formation counter_rng example_field [5] (Some 3) 7) = Inr r \<and>
        length (formation_probability r) = nat 3 \<and> length (canyon_depth r) = nat 3"
    by blast
  from h a c1 c2 b c3 show ?thesis by (intro conjI) simp_all
qed

text \<open>
  A seismic activity of one entry is constant: its normalisation is \<open>nan\<close>, which is
  broadcast to every step and propagates into the depths.
\<close>

lemma single_entry_nan:
  "\<exists>g1. simulate_canyon_formation counter_rng example_field [5] (Some 2) 7 =
     (Inr \<lparr>time_steps = [0, 1],
           formation_probability = [NaN, NaN],
           canyon_depth = [Fin 0, NaN],
           peak_formation_probability = NaN,
           final_depth = NaN\<rparr>, g1)"
proof -
  have n: "nat 2 = Suc (Suc 0)" by simp
  have u: "[1..<Suc (Suc 0)] = [Suc 0]" by simp
  show ?thesis
    unfolding simulate_canyon_formation_def Let_def option.case example_noise n u
    by (simp add: minmax_normalize_def arr_div_scalar_def arr_sub_scalar_def example_field_def
      broadcast_add_def arr_get_def arr_last_def py_min_def f_sub_def)
qed

end
